theory Spec2Isabelle
  imports Complex_Main "HOL-Library.Word"
begin

unbundle bit_operations_syntax

section \<open>Coordinates and geometry primitives\<close>

text \<open>
  The float manager of \<^verbatim>\<open>nsFloatManager.cpp\<close> computes in app units of type
  \<^verbatim>\<open>nscoord\<close>, a 32-bit signed integer. The typedef and its two sentinels live in
  \<^verbatim>\<open>nsCoord.h\<close>, which is not among the sources. The sentinels carry Gecko's values,
  \<^verbatim>\<open>(1 << 30) - 1\<close> and its negation; they bound the coordinates that the manager
  is meant to handle, so the sum and the difference of two coordinates between the
  sentinels fit in 32 bits. A coordinate is modelled as an integer, and the
  wrap-around of the 32-bit operation is written out, with \<open>wrap32\<close>, wherever a
  result can leave the 32-bit range for coordinates between the sentinels: in the
  three functions that multiply two coordinates (the determinant of the polygon
  constructor and the two \<^verbatim>\<open>XInterceptAtY\<close>), and at every operation on a value that
  comes out of them.
\<close>

type_synonym nscoord = int

definition wrap32 :: "int \<Rightarrow> nscoord" where
  "wrap32 v = (v + 2147483648) mod 4294967296 - 2147483648"

definition nscoord_MAX :: nscoord where
  "nscoord_MAX = 1073741823"

definition nscoord_MIN :: nscoord where
  "nscoord_MIN = - nscoord_MAX"

record nsPoint =
  pt_x :: nscoord
  pt_y :: nscoord

record nsSize =
  sz_width :: nscoord
  sz_height :: nscoord

record nsRect =
  r_x :: nscoord
  r_y :: nscoord
  r_width :: nscoord
  r_height :: nscoord

text \<open>
  Modelled from the spec: the rectangle helpers \<^verbatim>\<open>XMost\<close>, \<^verbatim>\<open>YMost\<close>, \<^verbatim>\<open>IsEmpty\<close>,
  \<^verbatim>\<open>ContainsY\<close> and \<^verbatim>\<open>MoveBy\<close> of \<^verbatim>\<open>nsRect\<close>, \<^verbatim>\<open>nsSize\<close> and \<^verbatim>\<open>nsPoint\<close> are
  declared in headers that are not among the sources. A rect is its origin plus its
  size; it is empty when a dimension is not positive.
\<close>

definition XMost :: "nsRect \<Rightarrow> nscoord" where
  "XMost r = r_x r + r_width r"

definition YMost :: "nsRect \<Rightarrow> nscoord" where
  "YMost r = r_y r + r_height r"

definition rect_IsEmpty :: "nsRect \<Rightarrow> bool" where
  "rect_IsEmpty r \<longleftrightarrow> r_height r \<le> 0 \<or> r_width r \<le> 0"

definition size_IsEmpty :: "nsSize \<Rightarrow> bool" where
  "size_IsEmpty s \<longleftrightarrow> sz_height s \<le> 0 \<or> sz_width s \<le> 0"

definition ContainsY :: "nsRect \<Rightarrow> nscoord \<Rightarrow> bool" where
  "ContainsY r aY \<longleftrightarrow> r_y r \<le> aY \<and> aY < YMost r"

definition rect_MoveBy :: "nscoord \<Rightarrow> nscoord \<Rightarrow> nsRect \<Rightarrow> nsRect" where
  "rect_MoveBy dx dy r = r\<lparr>r_x := r_x r + dx, r_y := r_y r + dy\<rparr>"

definition point_MoveBy :: "nscoord \<Rightarrow> nscoord \<Rightarrow> nsPoint \<Rightarrow> nsPoint" where
  "point_MoveBy dx dy p = p\<lparr>pt_x := pt_x p + dx, pt_y := pt_y p + dy\<rparr>"

text \<open>C++ integer division truncates towards zero.\<close>

definition tdiv :: "int \<Rightarrow> int \<Rightarrow> int" where
  "tdiv a b = sgn a * sgn b * (\<bar>a\<bar> div \<bar>b\<bar>)"

subsection \<open>Double-precision arithmetic\<close>

text \<open>
  The ellipse intercept is computed in \<^verbatim>\<open>double\<close>. A double is a real number that
  the format represents, an infinity or a NaN; every operation returns the
  representable number nearest to the exact result, ties going to the even
  significand of 53 bits. The values that the intercept meets are far from the ends of
  the exponent range, so rounding is given without overflow or subnormal numbers; the
  sign of a zero does not reach any result and is not kept.
\<close>

datatype double = Finite real | PosInf | NegInf | NaN

definition round_half_even :: "real \<Rightarrow> int" where
  "round_half_even x =
     (let f = \<lfloor>x\<rfloor>
      in if x - of_int f < 1 / 2 then f
         else if x - of_int f > 1 / 2 then f + 1
         else if even f then f else f + 1)"

text \<open>The exponent \<open>e\<close> of a nonzero real: \<open>2\<^sup>e \<le> \<bar>x\<bar> < 2\<^sup>e\<^sup>+\<^sup>1\<close>.\<close>

definition binade :: "real \<Rightarrow> int" where
  "binade x = \<lfloor>log 2 \<bar>x\<bar>\<rfloor>"

definition round_double :: "real \<Rightarrow> real" where
  "round_double x =
     (if x = 0 then 0
      else of_int (round_half_even (x * 2 powr of_int (52 - binade x)))
             * 2 powr of_int (binade x - 52))"

text \<open>
  The four operations of the intercept. An \<^verbatim>\<open>int\<close> operand is converted exactly: in
  \<^verbatim>\<open>n / double(d)\<close> both operands are 32-bit integers, in \<^verbatim>\<open>1 - q\<close> the integer is 1,
  and in \<^verbatim>\<open>aRadiusX * s\<close> the integer is a coordinate.
\<close>

definition double_div :: "int \<Rightarrow> int \<Rightarrow> double" where
  "double_div n d =
     (if d = 0 then (if 0 < n then PosInf else if n < 0 then NegInf else NaN)
      else Finite (round_double (of_int n / of_int d)))"

fun double_one_minus :: "double \<Rightarrow> double" where
  "double_one_minus (Finite q) = Finite (round_double (1 - q))"
| "double_one_minus PosInf = NegInf"
| "double_one_minus NegInf = PosInf"
| "double_one_minus NaN = NaN"

fun double_sqrt :: "double \<Rightarrow> double" where
  "double_sqrt (Finite t) = (if t < 0 then NaN else Finite (round_double (sqrt t)))"
| "double_sqrt PosInf = PosInf"
| "double_sqrt NegInf = NaN"
| "double_sqrt NaN = NaN"

fun double_times :: "int \<Rightarrow> double \<Rightarrow> double" where
  "double_times r (Finite s) = Finite (round_double (of_int r * s))"
| "double_times r PosInf = (if 0 < r then PosInf else if r < 0 then NegInf else NaN)"
| "double_times r NegInf = (if 0 < r then NegInf else if r < 0 then PosInf else NaN)"
| "double_times r NaN = NaN"

text \<open>
  Conversion of a \<^verbatim>\<open>double\<close> to \<^verbatim>\<open>nscoord\<close> drops the fraction. C++ leaves the
  conversion of a NaN, of an infinity and of a value beyond the 32-bit range undefined;
  the model takes what the conversion instruction of x86-64 yields for them, the least
  32-bit integer.
\<close>

definition trunc_to_nscoord :: "real \<Rightarrow> nscoord" where
  "trunc_to_nscoord r = (if 0 \<le> r then \<lfloor>r\<rfloor> else \<lceil>r\<rceil>)"

fun double_to_nscoord :: "double \<Rightarrow> nscoord" where
  "double_to_nscoord (Finite p) =
     (if - 2147483648 \<le> trunc_to_nscoord p \<and> trunc_to_nscoord p \<le> 2147483647
      then trunc_to_nscoord p else - 2147483648)"
| "double_to_nscoord PosInf = - 2147483648"
| "double_to_nscoord NegInf = - 2147483648"
| "double_to_nscoord NaN = - 2147483648"

section \<open>Shape strategies\<close>

subsection \<open>Rounded corners: \<^verbatim>\<open>ShapeInfo::XInterceptAtY\<close> and \<^verbatim>\<open>ComputeEllipseLineInterceptDiff\<close>\<close>

text \<open>
  \<^verbatim>\<open>return aRadiusX * std::sqrt(1 - (aY * aY) / double(aRadiusY * aRadiusY));\<close>
  The two products are formed in \<^verbatim>\<open>nscoord\<close>, so they wrap around at 32 bits, before
  they are converted; the quotient, the difference, the root and the last product are
  double operations, and the return converts to \<^verbatim>\<open>nscoord\<close>.
\<close>

definition ellipse_XInterceptAtY :: "nscoord \<Rightarrow> nscoord \<Rightarrow> nscoord \<Rightarrow> nscoord" where
  "ellipse_XInterceptAtY aY aRadiusX aRadiusY =
     double_to_nscoord
       (double_times aRadiusX
          (double_sqrt
             (double_one_minus
                (double_div (wrap32 (aY * aY)) (wrap32 (aRadiusY * aRadiusY))))))"

definition ComputeEllipseLineInterceptDiff ::
  "nscoord \<Rightarrow> nscoord \<Rightarrow> nscoord \<Rightarrow> nscoord \<Rightarrow> nscoord \<Rightarrow> nscoord \<Rightarrow> nscoord \<Rightarrow> nscoord \<Rightarrow> nscoord"
where
  "ComputeEllipseLineInterceptDiff aShapeBoxBStart aShapeBoxBEnd
       aBStartCornerRadiusL aBStartCornerRadiusB aBEndCornerRadiusL aBEndCornerRadiusB
       aBandBStart aBandBEnd =
     (if aBStartCornerRadiusB > 0 \<and> aBandBEnd \<ge> aShapeBoxBStart \<and>
         aBandBEnd \<le> aShapeBoxBStart + aBStartCornerRadiusB
      then let b = aBStartCornerRadiusB - (aBandBEnd - aShapeBoxBStart);
               lineIntercept = ellipse_XInterceptAtY b aBStartCornerRadiusL aBStartCornerRadiusB
           in wrap32 (aBStartCornerRadiusL - lineIntercept)
      else if aBEndCornerRadiusB > 0 \<and> aBandBStart \<ge> aShapeBoxBEnd - aBEndCornerRadiusB \<and>
              aBandBStart \<le> aShapeBoxBEnd
      then let b = aBEndCornerRadiusB - (aShapeBoxBEnd - aBandBStart);
               lineIntercept = ellipse_XInterceptAtY b aBEndCornerRadiusL aBEndCornerRadiusB
           in wrap32 (aBEndCornerRadiusL - lineIntercept)
      else 0)"

subsection \<open>The same helpers with their assertions and divisor tracked\<close>

text \<open>
  \<^verbatim>\<open>MOZ_ASSERT\<close> is compiled out of release builds, which the definitions above
  follow. To reason about the guards, the two intercept functions are given a second
  time with every assertion of the source, and the divisor, checked: a violated
  assertion or a zero divisor is an error value. The divisor of the ellipse intercept
  is the 32-bit product \<^verbatim>\<open>aRadiusY * aRadiusY\<close>, that of the polygon intercept the
  difference \<^verbatim>\<open>aP2.y - aP1.y\<close>.
\<close>

datatype intercept_error =
    RadiusYNotPositive
  | LineDoesNotIntersectSegment
  | HorizontalSegment
  | ZeroDivisor

definition ellipse_XInterceptAtY_checked ::
  "nscoord \<Rightarrow> nscoord \<Rightarrow> nscoord \<Rightarrow> intercept_error + nscoord" where
  "ellipse_XInterceptAtY_checked aY aRadiusX aRadiusY =
     (if \<not> aRadiusY > 0 then Inl RadiusYNotPositive
      else if wrap32 (aRadiusY * aRadiusY) = 0 then Inl ZeroDivisor
      else Inr (ellipse_XInterceptAtY aY aRadiusX aRadiusY))"

definition ComputeEllipseLineInterceptDiff_checked ::
  "nscoord \<Rightarrow> nscoord \<Rightarrow> nscoord \<Rightarrow> nscoord \<Rightarrow> nscoord \<Rightarrow> nscoord \<Rightarrow> nscoord \<Rightarrow> nscoord
     \<Rightarrow> intercept_error + nscoord"
where
  "ComputeEllipseLineInterceptDiff_checked aShapeBoxBStart aShapeBoxBEnd
       aBStartCornerRadiusL aBStartCornerRadiusB aBEndCornerRadiusL aBEndCornerRadiusB
       aBandBStart aBandBEnd =
     (if aBStartCornerRadiusB > 0 \<and> aBandBEnd \<ge> aShapeBoxBStart \<and>
         aBandBEnd \<le> aShapeBoxBStart + aBStartCornerRadiusB
      then (case ellipse_XInterceptAtY_checked
                   (aBStartCornerRadiusB - (aBandBEnd - aShapeBoxBStart))
                   aBStartCornerRadiusL aBStartCornerRadiusB of
              Inl e \<Rightarrow> Inl e
            | Inr lineIntercept \<Rightarrow> Inr (wrap32 (aBStartCornerRadiusL - lineIntercept)))
      else if aBEndCornerRadiusB > 0 \<and> aBandBStart \<ge> aShapeBoxBEnd - aBEndCornerRadiusB \<and>
              aBandBStart \<le> aShapeBoxBEnd
      then (case ellipse_XInterceptAtY_checked
                   (aBEndCornerRadiusB - (aShapeBoxBEnd - aBandBStart))
                   aBEndCornerRadiusL aBEndCornerRadiusB of
              Inl e \<Rightarrow> Inl e
            | Inr lineIntercept \<Rightarrow> Inr (wrap32 (aBEndCornerRadiusL - lineIntercept)))
      else Inr 0)"

text \<open>
  The arguments \<open>(aY, aRadiusX, aRadiusY)\<close> of the call to \<^verbatim>\<open>XInterceptAtY\<close> that
  \<^verbatim>\<open>ComputeEllipseLineInterceptDiff\<close> makes, if it makes one.
\<close>

definition ellipse_intercept_calls ::
  "nscoord \<Rightarrow> nscoord \<Rightarrow> nscoord \<Rightarrow> nscoord \<Rightarrow> nscoord \<Rightarrow> nscoord \<Rightarrow> nscoord \<Rightarrow> nscoord
     \<Rightarrow> (nscoord \<times> nscoord \<times> nscoord) list"
where
  "ellipse_intercept_calls aShapeBoxBStart aShapeBoxBEnd
       aBStartCornerRadiusL aBStartCornerRadiusB aBEndCornerRadiusL aBEndCornerRadiusB
       aBandBStart aBandBEnd =
     (if aBStartCornerRadiusB > 0 \<and> aBandBEnd \<ge> aShapeBoxBStart \<and>
         aBandBEnd \<le> aShapeBoxBStart + aBStartCornerRadiusB
      then [(aBStartCornerRadiusB - (aBandBEnd - aShapeBoxBStart),
             aBStartCornerRadiusL, aBStartCornerRadiusB)]
      else if aBEndCornerRadiusB > 0 \<and> aBandBStart \<ge> aShapeBoxBEnd - aBEndCornerRadiusB \<and>
              aBandBStart \<le> aShapeBoxBEnd
      then [(aBEndCornerRadiusB - (aShapeBoxBEnd - aBandBStart),
             aBEndCornerRadiusL, aBEndCornerRadiusB)]
      else [])"

subsection \<open>\<^verbatim>\<open>RoundedBoxShapeInfo\<close> and \<^verbatim>\<open>EllipseShapeInfo\<close>\<close>

text \<open>The eight half corner radii, already in the manager's logical frame.\<close>

record Radii =
  eCornerTopLeftX :: nscoord
  eCornerTopLeftY :: nscoord
  eCornerTopRightX :: nscoord
  eCornerTopRightY :: nscoord
  eCornerBottomRightX :: nscoord
  eCornerBottomRightY :: nscoord
  eCornerBottomLeftX :: nscoord
  eCornerBottomLeftY :: nscoord

definition RoundedBox_LineLeft :: "nsRect \<Rightarrow> Radii option \<Rightarrow> nscoord \<Rightarrow> nscoord \<Rightarrow> nscoord" where
  "RoundedBox_LineLeft mRect mRadii aBStart aBEnd =
     (case mRadii of
        None \<Rightarrow> r_x mRect
      | Some rd \<Rightarrow>
          wrap32 (r_x mRect +
            ComputeEllipseLineInterceptDiff (r_y mRect) (YMost mRect)
              (eCornerTopLeftX rd) (eCornerTopLeftY rd)
              (eCornerBottomLeftX rd) (eCornerBottomLeftY rd) aBStart aBEnd))"

definition RoundedBox_LineRight :: "nsRect \<Rightarrow> Radii option \<Rightarrow> nscoord \<Rightarrow> nscoord \<Rightarrow> nscoord" where
  "RoundedBox_LineRight mRect mRadii aBStart aBEnd =
     (case mRadii of
        None \<Rightarrow> XMost mRect
      | Some rd \<Rightarrow>
          wrap32 (XMost mRect -
            ComputeEllipseLineInterceptDiff (r_y mRect) (YMost mRect)
              (eCornerTopRightX rd) (eCornerTopRightY rd)
              (eCornerBottomRightX rd) (eCornerBottomRightY rd) aBStart aBEnd))"

definition Ellipse_BStart :: "nsPoint \<Rightarrow> nsSize \<Rightarrow> nscoord" where
  "Ellipse_BStart mCenter mRadii = pt_y mCenter - sz_height mRadii"

definition Ellipse_BEnd :: "nsPoint \<Rightarrow> nsSize \<Rightarrow> nscoord" where
  "Ellipse_BEnd mCenter mRadii = pt_y mCenter + sz_height mRadii"

definition Ellipse_LineLeft :: "nsPoint \<Rightarrow> nsSize \<Rightarrow> nscoord \<Rightarrow> nscoord \<Rightarrow> nscoord" where
  "Ellipse_LineLeft mCenter mRadii aBStart aBEnd =
     wrap32 (pt_x mCenter - sz_width mRadii +
       ComputeEllipseLineInterceptDiff (Ellipse_BStart mCenter mRadii) (Ellipse_BEnd mCenter mRadii)
         (sz_width mRadii) (sz_height mRadii) (sz_width mRadii) (sz_height mRadii) aBStart aBEnd)"

definition Ellipse_LineRight :: "nsPoint \<Rightarrow> nsSize \<Rightarrow> nscoord \<Rightarrow> nscoord \<Rightarrow> nscoord" where
  "Ellipse_LineRight mCenter mRadii aBStart aBEnd =
     wrap32 (pt_x mCenter + sz_width mRadii -
       ComputeEllipseLineInterceptDiff (Ellipse_BStart mCenter mRadii) (Ellipse_BEnd mCenter mRadii)
         (sz_width mRadii) (sz_height mRadii) (sz_width mRadii) (sz_height mRadii) aBStart aBEnd)"

subsection \<open>\<^verbatim>\<open>PolygonShapeInfo\<close>\<close>

record PolygonShapeInfo =
  mVertices :: "nsPoint list"
  mEmpty :: bool
  poly_mBStart :: nscoord
  poly_mBEnd :: nscoord

text \<open>
  The lambda \<^verbatim>\<open>Determinant\<close> of the constructor,
  \<^verbatim>\<open>return aP0.x * aP1.y - aP0.y * aP1.x;\<close>, and the point difference it is fed
  (\<^verbatim>\<open>operator-\<close> of \<^verbatim>\<open>nsPoint\<close>, componentwise). Products and differences are
  \<^verbatim>\<open>nscoord\<close> operations and wrap around at 32 bits.
\<close>

definition Determinant :: "nsPoint \<Rightarrow> nsPoint \<Rightarrow> nscoord" where
  "Determinant aP0 aP1 =
     wrap32 (wrap32 (pt_x aP0 * pt_y aP1) - wrap32 (pt_y aP0 * pt_x aP1))"

definition point_minus :: "nsPoint \<Rightarrow> nsPoint \<Rightarrow> nsPoint" where
  "point_minus a b = \<lparr>pt_x = wrap32 (pt_x a - pt_x b), pt_y = wrap32 (pt_y a - pt_y b)\<rparr>"

text \<open>
  The loop \<^verbatim>\<open>for (size_t i = 2; i < mVertices.Length(); ++i)\<close>, run over the vertices
  from index 2 on: it leaves \<^verbatim>\<open>isEntirelyCollinear\<close> true unless some determinant is
  nonzero, where it breaks.
\<close>

fun isEntirelyCollinear :: "nsPoint \<Rightarrow> nsPoint \<Rightarrow> nsPoint list \<Rightarrow> bool" where
  "isEntirelyCollinear p0 p1 [] = True"
| "isEntirelyCollinear p0 p1 (p2 # rest) =
     (if Determinant (point_minus p2 p0) (point_minus p1 p0) \<noteq> 0 then False
      else isEntirelyCollinear p0 p1 rest)"

text \<open>
  The values that fit in 32 bits, and the vertices \<open>p\<^sub>2\<close> for which no step of
  \<^verbatim>\<open>Determinant(p2 - p0, p1 - p0)\<close> leaves them: the four coordinate differences,
  the two products and their difference.
\<close>

definition fits32 :: "int \<Rightarrow> bool" where
  "fits32 v \<longleftrightarrow> - 2147483648 \<le> v \<and> v \<le> 2147483647"

definition determinant_in_range :: "nsPoint \<Rightarrow> nsPoint \<Rightarrow> nsPoint \<Rightarrow> bool" where
  "determinant_in_range p0 p1 p2 \<longleftrightarrow>
     fits32 (pt_x p2 - pt_x p0) \<and> fits32 (pt_y p2 - pt_y p0) \<and>
     fits32 (pt_x p1 - pt_x p0) \<and> fits32 (pt_y p1 - pt_y p0) \<and>
     fits32 ((pt_x p2 - pt_x p0) * (pt_y p1 - pt_y p0)) \<and>
     fits32 ((pt_y p2 - pt_y p0) * (pt_x p1 - pt_x p0)) \<and>
     fits32 ((pt_x p2 - pt_x p0) * (pt_y p1 - pt_y p0)
             - (pt_y p2 - pt_y p0) * (pt_x p1 - pt_x p0))"

text \<open>The range-for that folds \<^verbatim>\<open>std::min\<close> and \<^verbatim>\<open>std::max\<close> over the vertices.\<close>

fun block_extent :: "nsPoint list \<Rightarrow> nscoord \<times> nscoord \<Rightarrow> nscoord \<times> nscoord" where
  "block_extent [] (bs, be) = (bs, be)"
| "block_extent (vertex # rest) (bs, be) =
     block_extent rest (min bs (pt_y vertex), max be (pt_y vertex))"

definition PolygonShapeInfo_ctor :: "nsPoint list \<Rightarrow> PolygonShapeInfo" where
  "PolygonShapeInfo_ctor aVertices =
     (let init = \<lparr>mVertices = aVertices, mEmpty = False,
                  poly_mBStart = nscoord_MAX, poly_mBEnd = nscoord_MIN\<rparr>
      in if length aVertices < 3 then init\<lparr>mEmpty := True\<rparr>
         else if isEntirelyCollinear (aVertices ! 0) (aVertices ! 1) (drop 2 aVertices)
         then init\<lparr>mEmpty := True\<rparr>
         else (case block_extent aVertices (nscoord_MAX, nscoord_MIN) of
                 (bs, be) \<Rightarrow> init\<lparr>poly_mBStart := bs, poly_mBEnd := be\<rparr>))"

text \<open>
  \<^verbatim>\<open>return aP1.x + (aY - aP1.y) * (aP2.x - aP1.x) / (aP2.y - aP1.y);\<close>
  The product is formed in \<^verbatim>\<open>nscoord\<close> and wraps around at 32 bits before it is
  divided.
\<close>

definition polygon_XInterceptAtY :: "nscoord \<Rightarrow> nsPoint \<Rightarrow> nsPoint \<Rightarrow> nscoord" where
  "polygon_XInterceptAtY aY aP1 aP2 =
     wrap32 (pt_x aP1 +
       tdiv (wrap32 (wrap32 (aY - pt_y aP1) * wrap32 (pt_x aP2 - pt_x aP1)))
            (wrap32 (pt_y aP2 - pt_y aP1)))"

definition polygon_XInterceptAtY_checked ::
  "nscoord \<Rightarrow> nsPoint \<Rightarrow> nsPoint \<Rightarrow> intercept_error + nscoord" where
  "polygon_XInterceptAtY_checked aY aP1 aP2 =
     (if \<not> (pt_y aP1 \<le> aY \<and> aY \<le> pt_y aP2) then Inl LineDoesNotIntersectSegment
      else if \<not> pt_y aP1 \<noteq> pt_y aP2 then Inl HorizontalSegment
      else if wrap32 (pt_y aP2 - pt_y aP1) = 0 then Inl ZeroDivisor
      else Inr (polygon_XInterceptAtY aY aP1 aP2))"

text \<open>
  One iteration of the loop of \<^verbatim>\<open>ComputeLineIntercept\<close> on the segment from
  \<^verbatim>\<open>mVertices[i]\<close> to \<^verbatim>\<open>mVertices[(i + 1) % len]\<close>; \<^verbatim>\<open>aCompareOp\<close> is \<^verbatim>\<open>std::min\<close> or
  \<^verbatim>\<open>std::max\<close> on an initializer list.
\<close>

definition line_intercept_step ::
  "nscoord \<Rightarrow> nscoord \<Rightarrow> (nscoord list \<Rightarrow> nscoord) \<Rightarrow> nsPoint list \<Rightarrow> nat \<Rightarrow> nscoord \<Rightarrow> nscoord" where
  "line_intercept_step aBStart aBEnd aCompareOp vs i lineIntercept =
     (let len = length vs;
          v0 = vs ! i;
          v1 = vs ! ((i + 1) mod len);
          smallYVertex = (if pt_y v0 > pt_y v1 then v1 else v0);
          bigYVertex = (if pt_y v0 > pt_y v1 then v0 else v1)
      in if aBStart \<ge> pt_y bigYVertex \<or> aBEnd \<le> pt_y smallYVertex \<or>
            pt_y smallYVertex = pt_y bigYVertex
         then lineIntercept
         else
           let bStartLineIntercept =
                 (if aBStart \<le> pt_y smallYVertex then pt_x smallYVertex
                  else polygon_XInterceptAtY aBStart smallYVertex bigYVertex);
               bEndLineIntercept =
                 (if aBEnd \<ge> pt_y bigYVertex then pt_x bigYVertex
                  else polygon_XInterceptAtY aBEnd smallYVertex bigYVertex)
           in aCompareOp [lineIntercept, bStartLineIntercept, bEndLineIntercept])"

definition ComputeLineIntercept ::
  "nsPoint list \<Rightarrow> nscoord \<Rightarrow> nscoord \<Rightarrow> (nscoord list \<Rightarrow> nscoord) \<Rightarrow> nscoord \<Rightarrow> nscoord" where
  "ComputeLineIntercept vs aBStart aBEnd aCompareOp aLineInterceptInitialValue =
     fold (line_intercept_step aBStart aBEnd aCompareOp vs) [0 ..< length vs]
       aLineInterceptInitialValue"

definition line_intercept_step_checked ::
  "nscoord \<Rightarrow> nscoord \<Rightarrow> (nscoord list \<Rightarrow> nscoord) \<Rightarrow> nsPoint list \<Rightarrow> nat
     \<Rightarrow> intercept_error + nscoord \<Rightarrow> intercept_error + nscoord" where
  "line_intercept_step_checked aBStart aBEnd aCompareOp vs i acc =
     (case acc of
        Inl e \<Rightarrow> Inl e
      | Inr lineIntercept \<Rightarrow>
         (let len = length vs;
              v0 = vs ! i;
              v1 = vs ! ((i + 1) mod len);
              smallYVertex = (if pt_y v0 > pt_y v1 then v1 else v0);
              bigYVertex = (if pt_y v0 > pt_y v1 then v0 else v1)
          in if aBStart \<ge> pt_y bigYVertex \<or> aBEnd \<le> pt_y smallYVertex \<or>
                pt_y smallYVertex = pt_y bigYVertex
             then Inr lineIntercept
             else
               (case (if aBStart \<le> pt_y smallYVertex then Inr (pt_x smallYVertex)
                      else polygon_XInterceptAtY_checked aBStart smallYVertex bigYVertex) of
                  Inl e \<Rightarrow> Inl e
                | Inr bStartLineIntercept \<Rightarrow>
                   (case (if aBEnd \<ge> pt_y bigYVertex then Inr (pt_x bigYVertex)
                          else polygon_XInterceptAtY_checked aBEnd smallYVertex bigYVertex) of
                      Inl e \<Rightarrow> Inl e
                    | Inr bEndLineIntercept \<Rightarrow>
                        Inr (aCompareOp [lineIntercept, bStartLineIntercept, bEndLineIntercept])))))"

definition ComputeLineIntercept_checked ::
  "nsPoint list \<Rightarrow> nscoord \<Rightarrow> nscoord \<Rightarrow> (nscoord list \<Rightarrow> nscoord) \<Rightarrow> nscoord
     \<Rightarrow> intercept_error + nscoord" where
  "ComputeLineIntercept_checked vs aBStart aBEnd aCompareOp aLineInterceptInitialValue =
     fold (line_intercept_step_checked aBStart aBEnd aCompareOp vs) [0 ..< length vs]
       (Inr aLineInterceptInitialValue)"

text \<open>
  The arguments of the calls to \<^verbatim>\<open>XInterceptAtY\<close> that iteration \<open>i\<close> of the loop makes:
  none for a skipped segment, otherwise one for each band edge that lies strictly
  inside the segment's block span.
\<close>

definition polygon_intercept_calls ::
  "nscoord \<Rightarrow> nscoord \<Rightarrow> nsPoint list \<Rightarrow> nat \<Rightarrow> (nscoord \<times> nsPoint \<times> nsPoint) list" where
  "polygon_intercept_calls aBStart aBEnd vs i =
     (let len = length vs;
          v0 = vs ! i;
          v1 = vs ! ((i + 1) mod len);
          smallYVertex = (if pt_y v0 > pt_y v1 then v1 else v0);
          bigYVertex = (if pt_y v0 > pt_y v1 then v0 else v1)
      in if aBStart \<ge> pt_y bigYVertex \<or> aBEnd \<le> pt_y smallYVertex \<or>
            pt_y smallYVertex = pt_y bigYVertex
         then []
         else (if aBStart \<le> pt_y smallYVertex then []
               else [(aBStart, smallYVertex, bigYVertex)]) @
              (if aBEnd \<ge> pt_y bigYVertex then []
               else [(aBEnd, smallYVertex, bigYVertex)]))"

text \<open>\<^verbatim>\<open>std::min\<close> and \<^verbatim>\<open>std::max\<close> of a non-empty initializer list.\<close>

definition std_min :: "nscoord list \<Rightarrow> nscoord" where
  "std_min xs = fold min (tl xs) (hd xs)"

definition std_max :: "nscoord list \<Rightarrow> nscoord" where
  "std_max xs = fold max (tl xs) (hd xs)"

definition Polygon_LineLeft :: "PolygonShapeInfo \<Rightarrow> nscoord \<Rightarrow> nscoord \<Rightarrow> nscoord" where
  "Polygon_LineLeft p aBStart aBEnd =
     ComputeLineIntercept (mVertices p) aBStart aBEnd std_min nscoord_MAX"

definition Polygon_LineRight :: "PolygonShapeInfo \<Rightarrow> nscoord \<Rightarrow> nscoord \<Rightarrow> nscoord" where
  "Polygon_LineRight p aBStart aBEnd =
     ComputeLineIntercept (mVertices p) aBStart aBEnd std_max nscoord_MIN"

definition Polygon_Translate :: "nscoord \<Rightarrow> nscoord \<Rightarrow> PolygonShapeInfo \<Rightarrow> PolygonShapeInfo" where
  "Polygon_Translate aLineLeft aBlockStart p =
     p\<lparr>mVertices := map (point_MoveBy aLineLeft aBlockStart) (mVertices p),
       poly_mBStart := poly_mBStart p + aBlockStart,
       poly_mBEnd := poly_mBEnd p + aBlockStart\<rparr>"

subsection \<open>\<^verbatim>\<open>ImageShapeInfo\<close>\<close>

text \<open>
  The intervals are built once by the constructor from the alpha buffer; the queries
  below only read them.
\<close>

record ImageShapeInfo =
  mIntervals :: "nsRect list"
  img_mBStart :: nscoord
  img_mBEnd :: nscoord

function binary_search :: "nsRect list \<Rightarrow> nscoord \<Rightarrow> nat \<Rightarrow> nat \<Rightarrow> nat" where
  "binary_search ivs aTargetY startIdx endIdx =
     (if startIdx < endIdx then
        (if ContainsY (ivs ! (startIdx + (endIdx - startIdx) div 2)) aTargetY
         then startIdx + (endIdx - startIdx) div 2
         else if r_y (ivs ! (startIdx + (endIdx - startIdx) div 2)) < aTargetY
         then binary_search ivs aTargetY (startIdx + (endIdx - startIdx) div 2 + 1) endIdx
         else binary_search ivs aTargetY startIdx (startIdx + (endIdx - startIdx) div 2))
      else endIdx)"
  by pat_completeness auto
termination
  by (relation "measure (\<lambda>(ivs, y, s, e). e - s)") auto

definition MinIntervalIndexContainingY :: "nsRect list \<Rightarrow> nscoord \<Rightarrow> nat" where
  "MinIntervalIndexContainingY ivs aTargetY = binary_search ivs aTargetY 0 (length ivs)"

text \<open>
  The scan of \<^verbatim>\<open>LineEdge\<close> over the intervals from the start index on; it breaks at
  the first interval that begins after \<^verbatim>\<open>aBEnd\<close>.
\<close>

fun line_edge_scan :: "nscoord \<Rightarrow> bool \<Rightarrow> nsRect list \<Rightarrow> nscoord \<Rightarrow> nscoord" where
  "line_edge_scan aBEnd aLeft [] lineEdge = lineEdge"
| "line_edge_scan aBEnd aLeft (interval # rest) lineEdge =
     (if r_y interval > aBEnd then lineEdge
      else line_edge_scan aBEnd aLeft rest
             (if aLeft then min lineEdge (r_x interval) else max lineEdge (XMost interval)))"

definition LineEdge :: "ImageShapeInfo \<Rightarrow> nscoord \<Rightarrow> nscoord \<Rightarrow> bool \<Rightarrow> nscoord" where
  "LineEdge img aBStart aBEnd aLeft =
     line_edge_scan aBEnd aLeft
       (drop (MinIntervalIndexContainingY (mIntervals img) aBStart) (mIntervals img))
       (if aLeft then nscoord_MAX else nscoord_MIN)"

definition Image_Translate :: "nscoord \<Rightarrow> nscoord \<Rightarrow> ImageShapeInfo \<Rightarrow> ImageShapeInfo" where
  "Image_Translate aLineLeft aBlockStart img =
     img\<lparr>mIntervals := map (rect_MoveBy aLineLeft aBlockStart) (mIntervals img),
         img_mBStart := img_mBStart img + aBlockStart,
         img_mBEnd := img_mBEnd img + aBlockStart\<rparr>"

subsection \<open>The abstract class \<^verbatim>\<open>ShapeInfo\<close> and its virtual methods\<close>

datatype ShapeInfo =
    RoundedBoxShapeInfo nsRect "Radii option"
  | EllipseShapeInfo nsPoint nsSize
  | PolygonShape PolygonShapeInfo
  | ImageShape ImageShapeInfo

fun shape_LineLeft :: "ShapeInfo \<Rightarrow> nscoord \<Rightarrow> nscoord \<Rightarrow> nscoord" where
  "shape_LineLeft (RoundedBoxShapeInfo mRect mRadii) aBStart aBEnd =
     RoundedBox_LineLeft mRect mRadii aBStart aBEnd"
| "shape_LineLeft (EllipseShapeInfo mCenter mRadii) aBStart aBEnd =
     Ellipse_LineLeft mCenter mRadii aBStart aBEnd"
| "shape_LineLeft (PolygonShape p) aBStart aBEnd = Polygon_LineLeft p aBStart aBEnd"
| "shape_LineLeft (ImageShape img) aBStart aBEnd = LineEdge img aBStart aBEnd True"

fun shape_LineRight :: "ShapeInfo \<Rightarrow> nscoord \<Rightarrow> nscoord \<Rightarrow> nscoord" where
  "shape_LineRight (RoundedBoxShapeInfo mRect mRadii) aBStart aBEnd =
     RoundedBox_LineRight mRect mRadii aBStart aBEnd"
| "shape_LineRight (EllipseShapeInfo mCenter mRadii) aBStart aBEnd =
     Ellipse_LineRight mCenter mRadii aBStart aBEnd"
| "shape_LineRight (PolygonShape p) aBStart aBEnd = Polygon_LineRight p aBStart aBEnd"
| "shape_LineRight (ImageShape img) aBStart aBEnd = LineEdge img aBStart aBEnd False"

fun shape_BStart :: "ShapeInfo \<Rightarrow> nscoord" where
  "shape_BStart (RoundedBoxShapeInfo mRect mRadii) = r_y mRect"
| "shape_BStart (EllipseShapeInfo mCenter mRadii) = Ellipse_BStart mCenter mRadii"
| "shape_BStart (PolygonShape p) = poly_mBStart p"
| "shape_BStart (ImageShape img) = img_mBStart img"

fun shape_BEnd :: "ShapeInfo \<Rightarrow> nscoord" where
  "shape_BEnd (RoundedBoxShapeInfo mRect mRadii) = YMost mRect"
| "shape_BEnd (EllipseShapeInfo mCenter mRadii) = Ellipse_BEnd mCenter mRadii"
| "shape_BEnd (PolygonShape p) = poly_mBEnd p"
| "shape_BEnd (ImageShape img) = img_mBEnd img"

fun shape_IsEmpty :: "ShapeInfo \<Rightarrow> bool" where
  "shape_IsEmpty (RoundedBoxShapeInfo mRect mRadii) = rect_IsEmpty mRect"
| "shape_IsEmpty (EllipseShapeInfo mCenter mRadii) = size_IsEmpty mRadii"
| "shape_IsEmpty (PolygonShape p) = mEmpty p"
| "shape_IsEmpty (ImageShape img) = (mIntervals img = [])"

fun shape_Translate :: "nscoord \<Rightarrow> nscoord \<Rightarrow> ShapeInfo \<Rightarrow> ShapeInfo" where
  "shape_Translate aLineLeft aBlockStart (RoundedBoxShapeInfo mRect mRadii) =
     RoundedBoxShapeInfo (rect_MoveBy aLineLeft aBlockStart mRect) mRadii"
| "shape_Translate aLineLeft aBlockStart (EllipseShapeInfo mCenter mRadii) =
     EllipseShapeInfo (point_MoveBy aLineLeft aBlockStart mCenter) mRadii"
| "shape_Translate aLineLeft aBlockStart (PolygonShape p) =
     PolygonShape (Polygon_Translate aLineLeft aBlockStart p)"
| "shape_Translate aLineLeft aBlockStart (ImageShape img) =
     ImageShape (Image_Translate aLineLeft aBlockStart img)"

section \<open>Frames, writing modes and logical rectangles\<close>

datatype StyleFloat = StyleFloat_None | StyleFloat_Left | StyleFloat_Right

datatype StyleClear =
    StyleClear_None
  | StyleClear_Left
  | StyleClear_Right
  | StyleClear_InlineStart
  | StyleClear_InlineEnd
  | StyleClear_Both
  | StyleClear_Line

text \<open>
  A frame is an opaque handle. The manager compares handles and reads the physical
  float side that the frame's style resolves to in the manager's writing mode
  (\<^verbatim>\<open>mFrame->StyleDisplay()->PhysicalFloats(aWM)\<close>).
\<close>

record nsIFrame =
  frame_id :: nat
  PhysicalFloats :: StyleFloat

text \<open>
  Modelled from the spec: \<^verbatim>\<open>WritingMode\<close>, \<^verbatim>\<open>LogicalRect\<close> and \<^verbatim>\<open>LogicalSize\<close> come from
  \<^verbatim>\<open>WritingModes.h\<close>, which is not among the sources. A logical rect has an inline
  start, a block start and two sizes; its line-left edge is its inline start under
  LTR and is mirrored in the container's inline size under RTL. The container's
  inline size is its height in a vertical writing mode and its width otherwise.
\<close>

record WritingMode =
  IsBidiLTR :: bool
  IsVertical :: bool

record LogicalRect =
  IStart :: nscoord
  BStart :: nscoord
  ISize :: nscoord
  BSize :: nscoord

definition IEnd :: "LogicalRect \<Rightarrow> nscoord" where
  "IEnd r = IStart r + ISize r"

definition LogicalSize_ISize :: "WritingMode \<Rightarrow> nsSize \<Rightarrow> nscoord" where
  "LogicalSize_ISize aWM aContainerSize =
     (if IsVertical aWM then sz_height aContainerSize else sz_width aContainerSize)"

definition LineLeft :: "LogicalRect \<Rightarrow> WritingMode \<Rightarrow> nsSize \<Rightarrow> nscoord" where
  "LineLeft r aWM aContainerSize =
     (if IsBidiLTR aWM then IStart r else LogicalSize_ISize aWM aContainerSize - IEnd r)"

definition LineRight :: "LogicalRect \<Rightarrow> WritingMode \<Rightarrow> nsSize \<Rightarrow> nscoord" where
  "LineRight r aWM aContainerSize =
     (if IsBidiLTR aWM then IEnd r else LogicalSize_ISize aWM aContainerSize - IStart r)"

text \<open>\<^verbatim>\<open>ShapeInfo::ConvertToFloatLogical(const LogicalRect&, WritingMode, const nsSize&)\<close>\<close>

definition ConvertToFloatLogical :: "LogicalRect \<Rightarrow> WritingMode \<Rightarrow> nsSize \<Rightarrow> nsRect" where
  "ConvertToFloatLogical aRect aWM aContainerSize =
     \<lparr>r_x = LineLeft aRect aWM aContainerSize, r_y = BStart aRect,
      r_width = ISize aRect, r_height = BSize aRect\<rparr>"

section \<open>\<^verbatim>\<open>FloatInfo\<close>\<close>

datatype ShapeType = Margin | ShapeOutside

datatype BandInfoType = BandFromPoint | WidthWithinHeight

record FloatInfo =
  mFrame :: nsIFrame
  mLeftBEnd :: nscoord
  mRightBEnd :: nscoord
  mRect :: nsRect
  mShapeInfo :: "ShapeInfo option"

text \<open>
  Modelled from the spec: the argument-free accessors of \<^verbatim>\<open>FloatInfo\<close> are inline
  members of \<^verbatim>\<open>nsFloatManager.h\<close>, which is not among the sources; they read the
  margin-box rect (\<open>absent shape \<Rightarrow> use rect\<close>).
\<close>

definition fi_LineLeft :: "FloatInfo \<Rightarrow> nscoord" where
  "fi_LineLeft fi = r_x (mRect fi)"

definition fi_LineRight :: "FloatInfo \<Rightarrow> nscoord" where
  "fi_LineRight fi = XMost (mRect fi)"

definition fi_BStart :: "FloatInfo \<Rightarrow> nscoord" where
  "fi_BStart fi = r_y (mRect fi)"

definition fi_BEnd :: "FloatInfo \<Rightarrow> nscoord" where
  "fi_BEnd fi = YMost (mRect fi)"

definition fi_IsEmpty :: "FloatInfo \<Rightarrow> bool" where
  "fi_IsEmpty fi = rect_IsEmpty (mRect fi)"

text \<open>The accessors that take a \<^verbatim>\<open>ShapeType\<close>, as defined in the source.\<close>

definition FloatInfo_LineLeft :: "FloatInfo \<Rightarrow> ShapeType \<Rightarrow> nscoord \<Rightarrow> nscoord \<Rightarrow> nscoord" where
  "FloatInfo_LineLeft fi aShapeType aBStart aBEnd =
     (if aShapeType = Margin then fi_LineLeft fi
      else case mShapeInfo fi of
             None \<Rightarrow> fi_LineLeft fi
           | Some sh \<Rightarrow> max (fi_LineLeft fi) (shape_LineLeft sh aBStart aBEnd))"

definition FloatInfo_LineRight :: "FloatInfo \<Rightarrow> ShapeType \<Rightarrow> nscoord \<Rightarrow> nscoord \<Rightarrow> nscoord" where
  "FloatInfo_LineRight fi aShapeType aBStart aBEnd =
     (if aShapeType = Margin then fi_LineRight fi
      else case mShapeInfo fi of
             None \<Rightarrow> fi_LineRight fi
           | Some sh \<Rightarrow> min (fi_LineRight fi) (shape_LineRight sh aBStart aBEnd))"

definition FloatInfo_BStart :: "FloatInfo \<Rightarrow> ShapeType \<Rightarrow> nscoord" where
  "FloatInfo_BStart fi aShapeType =
     (if aShapeType = Margin then fi_BStart fi
      else case mShapeInfo fi of
             None \<Rightarrow> fi_BStart fi
           | Some sh \<Rightarrow> max (fi_BStart fi) (shape_BStart sh))"

definition FloatInfo_BEnd :: "FloatInfo \<Rightarrow> ShapeType \<Rightarrow> nscoord" where
  "FloatInfo_BEnd fi aShapeType =
     (if aShapeType = Margin then fi_BEnd fi
      else case mShapeInfo fi of
             None \<Rightarrow> fi_BEnd fi
           | Some sh \<Rightarrow> min (fi_BEnd fi) (shape_BEnd sh))"

definition FloatInfo_IsEmpty :: "FloatInfo \<Rightarrow> ShapeType \<Rightarrow> bool" where
  "FloatInfo_IsEmpty fi aShapeType =
     (if aShapeType = Margin then fi_IsEmpty fi
      else case mShapeInfo fi of
             None \<Rightarrow> fi_IsEmpty fi
           | Some sh \<Rightarrow> shape_IsEmpty sh)"

text \<open>
  The constructor. The shape itself is built from the frame's style by factories
  that call into the style system; \<open>aStyleShape\<close> stands for what they return in
  the margin-box frame (\<open>None\<close> for \<^verbatim>\<open>shape-outside: none\<close> or an image that is not
  ready). The constructor drops it when the margin box is empty and otherwise
  translates it by the manager's origin. The two cumulative fields are set by
  \<^verbatim>\<open>AddFloat\<close>.
\<close>

definition FloatInfo_ctor ::
  "nsIFrame \<Rightarrow> nscoord \<Rightarrow> nscoord \<Rightarrow> LogicalRect \<Rightarrow> WritingMode \<Rightarrow> nsSize \<Rightarrow> ShapeInfo option
     \<Rightarrow> FloatInfo" where
  "FloatInfo_ctor aFrame aLineLeft aBlockStart aMarginRect aWM aContainerSize aStyleShape =
     (let rect = rect_MoveBy aLineLeft aBlockStart
                   (ConvertToFloatLogical aMarginRect aWM aContainerSize)
      in \<lparr>mFrame = aFrame, mLeftBEnd = 0, mRightBEnd = 0, mRect = rect,
          mShapeInfo = (if rect_IsEmpty rect then None
                        else map_option (shape_Translate aLineLeft aBlockStart) aStyleShape)\<rparr>)"

section \<open>The manager\<close>

record nsFloatManager =
  mLineLeft :: nscoord
  mBlockStart :: nscoord
  mFloats :: "FloatInfo list"
  mFloatDamage :: "(nscoord \<times> nscoord) list"
  mPushedLeftFloatPastBreak :: bool
  mPushedRightFloatPastBreak :: bool
  mSplitLeftFloatAcrossBreak :: bool
  mSplitRightFloatAcrossBreak :: bool

record SavedState =
  s_mLineLeft :: nscoord
  s_mBlockStart :: nscoord
  s_mFloatInfoCount :: nat
  s_mPushedLeftFloatPastBreak :: bool
  s_mPushedRightFloatPastBreak :: bool
  s_mSplitLeftFloatAcrossBreak :: bool
  s_mSplitRightFloatAcrossBreak :: bool

record nsFlowAreaRect =
  fa_mRect :: LogicalRect
  mHasFloats :: bool

definition mk_nsFlowAreaRect ::
  "nscoord \<Rightarrow> nscoord \<Rightarrow> nscoord \<Rightarrow> nscoord \<Rightarrow> bool \<Rightarrow> nsFlowAreaRect" where
  "mk_nsFlowAreaRect aICoord aBCoord aISize aBSize aHasFloats =
     \<lparr>fa_mRect = \<lparr>IStart = aICoord, BStart = aBCoord, ISize = aISize, BSize = aBSize\<rparr>,
      mHasFloats = aHasFloats\<rparr>"

text \<open>
  Modelled from the spec: \<^verbatim>\<open>HasAnyFloats\<close>, \<^verbatim>\<open>Translate\<close>, the setters of the four
  break flags and \<^verbatim>\<open>IncludeInDamage\<close> are inline members of \<^verbatim>\<open>nsFloatManager.h\<close>,
  which is not among the sources. \<^verbatim>\<open>Translate\<close> adds to the origin and does not move
  stored floats; the damage sink is an opaque collector of block intervals.
\<close>

definition HasAnyFloats :: "nsFloatManager \<Rightarrow> bool" where
  "HasAnyFloats m \<longleftrightarrow> mFloats m \<noteq> []"

definition Translate :: "nscoord \<Rightarrow> nscoord \<Rightarrow> nsFloatManager \<Rightarrow> nsFloatManager" where
  "Translate aLineLeft aBlockStart m =
     m\<lparr>mLineLeft := mLineLeft m + aLineLeft, mBlockStart := mBlockStart m + aBlockStart\<rparr>"

definition SetBreakFlags :: "bool \<Rightarrow> bool \<Rightarrow> bool \<Rightarrow> bool \<Rightarrow> nsFloatManager \<Rightarrow> nsFloatManager" where
  "SetBreakFlags pl pr sl sr m =
     m\<lparr>mPushedLeftFloatPastBreak := pl, mPushedRightFloatPastBreak := pr,
       mSplitLeftFloatAcrossBreak := sl, mSplitRightFloatAcrossBreak := sr\<rparr>"

definition IncludeInDamage :: "nscoord \<Rightarrow> nscoord \<Rightarrow> nsFloatManager \<Rightarrow> nsFloatManager" where
  "IncludeInDamage aIntervalBegin aIntervalEnd m =
     m\<lparr>mFloatDamage := mFloatDamage m @
          [(aIntervalBegin + mBlockStart m, aIntervalEnd + mBlockStart m)]\<rparr>"

subsection \<open>\<^verbatim>\<open>AddFloat\<close>\<close>

definition AddFloat ::
  "nsIFrame \<Rightarrow> LogicalRect \<Rightarrow> WritingMode \<Rightarrow> nsSize \<Rightarrow> ShapeInfo option \<Rightarrow> nsFloatManager
     \<Rightarrow> nsFloatManager" where
  "AddFloat aFloatFrame aMarginRect aWM aContainerSize aStyleShape m =
     (let info0 = FloatInfo_ctor aFloatFrame (mLineLeft m) (mBlockStart m) aMarginRect aWM
                    aContainerSize aStyleShape;
          info1 = (if HasAnyFloats m
                   then info0\<lparr>mLeftBEnd := mLeftBEnd (last (mFloats m)),
                              mRightBEnd := mRightBEnd (last (mFloats m))\<rparr>
                   else info0\<lparr>mLeftBEnd := nscoord_MIN, mRightBEnd := nscoord_MIN\<rparr>);
          floatStyle = PhysicalFloats aFloatFrame;
          thisBEnd = fi_BEnd info1;
          info2 = (if floatStyle = StyleFloat_Left
                   then (if thisBEnd > mLeftBEnd info1 then info1\<lparr>mLeftBEnd := thisBEnd\<rparr>
                         else info1)
                   else (if thisBEnd > mRightBEnd info1 then info1\<lparr>mRightBEnd := thisBEnd\<rparr>
                         else info1))
      in m\<lparr>mFloats := mFloats m @ [info2]\<rparr>)"

subsection \<open>\<^verbatim>\<open>RemoveTrailingRegions\<close>\<close>

text \<open>
  The \<^verbatim>\<open>while (newLength > 0)\<close> loop, run on the registry read from its tail:
  it stops at the first entry whose frame is not in the set.
\<close>

fun drop_trailing :: "nat set \<Rightarrow> FloatInfo list \<Rightarrow> FloatInfo list" where
  "drop_trailing frameSet [] = []"
| "drop_trailing frameSet (fi # rest) =
     (if frame_id (mFrame fi) \<notin> frameSet then fi # rest else drop_trailing frameSet rest)"

definition RemoveTrailingRegions :: "nsIFrame list \<Rightarrow> nsFloatManager \<Rightarrow> nsFloatManager" where
  "RemoveTrailingRegions aFrameList m =
     (if aFrameList = [] then m
      else m\<lparr>mFloats := rev (drop_trailing (frame_id ` set aFrameList) (rev (mFloats m)))\<rparr>)"

subsection \<open>\<^verbatim>\<open>PushState\<close> and \<^verbatim>\<open>PopState\<close>\<close>

definition PushState :: "nsFloatManager \<Rightarrow> SavedState" where
  "PushState m =
     \<lparr>s_mLineLeft = mLineLeft m, s_mBlockStart = mBlockStart m,
      s_mFloatInfoCount = length (mFloats m),
      s_mPushedLeftFloatPastBreak = mPushedLeftFloatPastBreak m,
      s_mPushedRightFloatPastBreak = mPushedRightFloatPastBreak m,
      s_mSplitLeftFloatAcrossBreak = mSplitLeftFloatAcrossBreak m,
      s_mSplitRightFloatAcrossBreak = mSplitRightFloatAcrossBreak m\<rparr>"

text \<open>
  Popping a state whose float count exceeds the registry's length is the misuse that
  the source asserts against; it has no defined result and is \<open>None\<close> here.
\<close>

definition PopState :: "SavedState \<Rightarrow> nsFloatManager \<Rightarrow> nsFloatManager option" where
  "PopState aState m =
     (if s_mFloatInfoCount aState \<le> length (mFloats m)
      then Some (m\<lparr>mLineLeft := s_mLineLeft aState,
                   mBlockStart := s_mBlockStart aState,
                   mPushedLeftFloatPastBreak := s_mPushedLeftFloatPastBreak aState,
                   mPushedRightFloatPastBreak := s_mPushedRightFloatPastBreak aState,
                   mSplitLeftFloatAcrossBreak := s_mSplitLeftFloatAcrossBreak aState,
                   mSplitRightFloatAcrossBreak := s_mSplitRightFloatAcrossBreak aState,
                   mFloats := take (s_mFloatInfoCount aState) (mFloats m)\<rparr>)
      else None)"

subsection \<open>\<^verbatim>\<open>ClearFloats\<close> and \<^verbatim>\<open>ClearContinues\<close>\<close>

text \<open>
  \<^verbatim>\<open>DONT_CLEAR_PUSHED_FLOATS\<close> is the enumerator \<^verbatim>\<open>(1 << 0)\<close> of the header; the flags
  are a \<^verbatim>\<open>uint32_t\<close>.
\<close>

definition DONT_CLEAR_PUSHED_FLOATS :: "32 word" where
  "DONT_CLEAR_PUSHED_FLOATS = 1"

definition ClearContinues :: "nsFloatManager \<Rightarrow> StyleClear \<Rightarrow> bool" where
  "ClearContinues m aBreakType \<longleftrightarrow>
     ((mPushedLeftFloatPastBreak m \<or> mSplitLeftFloatAcrossBreak m) \<and>
      (aBreakType = StyleClear_Both \<or> aBreakType = StyleClear_Left)) \<or>
     ((mPushedRightFloatPastBreak m \<or> mSplitRightFloatAcrossBreak m) \<and>
      (aBreakType = StyleClear_Both \<or> aBreakType = StyleClear_Right))"

definition ClearFloats :: "nsFloatManager \<Rightarrow> nscoord \<Rightarrow> StyleClear \<Rightarrow> 32 word \<Rightarrow> nscoord" where
  "ClearFloats m aBCoord aBreakType aFlags =
     (if \<not> (aFlags AND DONT_CLEAR_PUSHED_FLOATS \<noteq> 0) \<and> ClearContinues m aBreakType
      then nscoord_MAX
      else if \<not> HasAnyFloats m then aBCoord
      else
        let blockEnd = aBCoord + mBlockStart m;
            tail = last (mFloats m);
            blockEnd' =
              (case aBreakType of
                 StyleClear_Both \<Rightarrow> max (max blockEnd (mLeftBEnd tail)) (mRightBEnd tail)
               | StyleClear_Left \<Rightarrow> max blockEnd (mLeftBEnd tail)
               | StyleClear_Right \<Rightarrow> max blockEnd (mRightBEnd tail)
               | _ \<Rightarrow> blockEnd)
        in blockEnd' - mBlockStart m)"

definition GetLowestFloatTop :: "nsFloatManager \<Rightarrow> nscoord" where
  "GetLowestFloatTop m =
     (if mPushedLeftFloatPastBreak m \<or> mPushedRightFloatPastBreak m then nscoord_MAX
      else if \<not> HasAnyFloats m then nscoord_MIN
      else fi_BStart (last (mFloats m)) - mBlockStart m)"

subsection \<open>\<^verbatim>\<open>GetFlowArea\<close>\<close>

text \<open>
  The loop state is \<open>(lineLeft, lineRight, blockEnd, haveFloats)\<close>. The loop walks the
  in-scope floats from the tail of the registry, so it is given that prefix reversed.
  \<open>band_step\<close> is the body of one iteration after the \<^verbatim>\<open>break\<close> and \<^verbatim>\<open>continue\<close>
  tests.
\<close>

type_synonym band_state = "nscoord \<times> nscoord \<times> nscoord \<times> bool"

definition band_step ::
  "BandInfoType \<Rightarrow> ShapeType \<Rightarrow> nscoord \<Rightarrow> FloatInfo \<Rightarrow> band_state \<Rightarrow> band_state" where
  "band_step aBandInfoType aShapeType blockStart fi st =
     (case st of (lineLeft, lineRight, blockEnd, haveFloats) \<Rightarrow>
        let floatBStart = FloatInfo_BStart fi aShapeType;
            floatBEnd = FloatInfo_BEnd fi aShapeType
        in if blockStart < floatBStart \<and> aBandInfoType = BandFromPoint
           then (lineLeft, lineRight,
                 (if floatBStart < blockEnd then floatBStart else blockEnd), haveFloats)
           else if blockStart < floatBEnd \<and>
                   (floatBStart < blockEnd \<or> (floatBStart = blockEnd \<and> blockStart = blockEnd))
           then
             let floatStyle = PhysicalFloats (mFrame fi);
                 bandBlockEnd = (if aBandInfoType = BandFromPoint then blockStart else blockEnd);
                 blockEnd' = (if floatBEnd < blockEnd \<and> aBandInfoType = BandFromPoint
                              then floatBEnd else blockEnd)
             in if floatStyle = StyleFloat_Left
                then
                  let lineRightEdge = FloatInfo_LineRight fi aShapeType blockStart bandBlockEnd
                  in if lineRightEdge > lineLeft
                     then (lineRightEdge, lineRight, blockEnd', True)
                     else (lineLeft, lineRight, blockEnd', haveFloats)
                else
                  let lineLeftEdge = FloatInfo_LineLeft fi aShapeType blockStart bandBlockEnd
                  in if lineLeftEdge < lineRight
                     then (lineLeft, lineLeftEdge, blockEnd', True)
                     else (lineLeft, lineRight, blockEnd', haveFloats)
           else (lineLeft, lineRight, blockEnd, haveFloats))"

fun band_loop ::
  "BandInfoType \<Rightarrow> ShapeType \<Rightarrow> nscoord \<Rightarrow> FloatInfo list \<Rightarrow> band_state \<Rightarrow> band_state" where
  "band_loop aBandInfoType aShapeType blockStart [] st = st"
| "band_loop aBandInfoType aShapeType blockStart (fi # rest) st =
     (if mLeftBEnd fi \<le> blockStart \<and> mRightBEnd fi \<le> blockStart then st
      else if FloatInfo_IsEmpty fi aShapeType
      then band_loop aBandInfoType aShapeType blockStart rest st
      else band_loop aBandInfoType aShapeType blockStart rest
             (band_step aBandInfoType aShapeType blockStart fi st))"

text \<open>
  The call on the in-scope floats \<open>fs\<close> (the first \<^verbatim>\<open>floatCount\<close> entries of the
  registry), in the order of the source: the band's block start, the quick return, the
  state the walk starts from, the walk, and the conversion of its result.
\<close>

definition band_blockStart :: "nscoord \<Rightarrow> nscoord \<Rightarrow> nscoord" where
  "band_blockStart originBlockStart aBCoord =
     (let blockStart = aBCoord + originBlockStart
      in if blockStart < nscoord_MIN then nscoord_MIN else blockStart)"

definition below_last_float :: "FloatInfo list \<Rightarrow> nscoord \<Rightarrow> bool" where
  "below_last_float fs blockStart \<longleftrightarrow>
     fs = [] \<or> (mLeftBEnd (last fs) \<le> blockStart \<and> mRightBEnd (last fs) \<le> blockStart)"

definition band_init ::
  "nscoord \<Rightarrow> nscoord \<Rightarrow> WritingMode \<Rightarrow> nscoord \<Rightarrow> LogicalRect \<Rightarrow> nsSize \<Rightarrow> band_state" where
  "band_init originLineLeft blockStart aWM aBSize aContentArea aContainerSize =
     (let blockEnd =
            (if aBSize = nscoord_MAX then nscoord_MAX
             else if blockStart + aBSize < blockStart \<or> blockStart + aBSize > nscoord_MAX
             then nscoord_MAX else blockStart + aBSize);
          lineLeft = originLineLeft + LineLeft aContentArea aWM aContainerSize;
          lineRight = originLineLeft + LineRight aContentArea aWM aContainerSize
      in (lineLeft, (if lineRight < lineLeft then lineLeft else lineRight), blockEnd, False))"

definition band_walk ::
  "nscoord \<Rightarrow> nscoord \<Rightarrow> FloatInfo list \<Rightarrow> WritingMode \<Rightarrow> nscoord \<Rightarrow> nscoord \<Rightarrow> BandInfoType
     \<Rightarrow> ShapeType \<Rightarrow> LogicalRect \<Rightarrow> nsSize \<Rightarrow> band_state" where
  "band_walk originLineLeft originBlockStart fs aWM aBCoord aBSize aBandInfoType aShapeType
       aContentArea aContainerSize =
     band_loop aBandInfoType aShapeType (band_blockStart originBlockStart aBCoord) (rev fs)
       (band_init originLineLeft (band_blockStart originBlockStart aBCoord) aWM aBSize
          aContentArea aContainerSize)"

definition flow_area_of ::
  "nscoord \<Rightarrow> nscoord \<Rightarrow> FloatInfo list \<Rightarrow> WritingMode \<Rightarrow> nscoord \<Rightarrow> nscoord \<Rightarrow> BandInfoType
     \<Rightarrow> ShapeType \<Rightarrow> LogicalRect \<Rightarrow> nsSize \<Rightarrow> nsFlowAreaRect" where
  "flow_area_of originLineLeft originBlockStart fs aWM aBCoord aBSize aBandInfoType aShapeType
       aContentArea aContainerSize =
     (let blockStart = band_blockStart originBlockStart aBCoord
      in if below_last_float fs blockStart
         then mk_nsFlowAreaRect (IStart aContentArea) aBCoord (ISize aContentArea) aBSize False
         else
           case band_walk originLineLeft originBlockStart fs aWM aBCoord aBSize aBandInfoType
                  aShapeType aContentArea aContainerSize of
             (lineLeft, lineRight, blockEnd, haveFloats) \<Rightarrow>
               let blockSize = (if blockEnd = nscoord_MAX then nscoord_MAX
                                else blockEnd - blockStart);
                   inlineStart =
                     (if IsBidiLTR aWM then lineLeft - originLineLeft
                      else originLineLeft - lineRight + LogicalSize_ISize aWM aContainerSize)
               in mk_nsFlowAreaRect inlineStart (blockStart - originBlockStart)
                    (lineRight - lineLeft) blockSize haveFloats)"

text \<open>
  The band edges \<open>L\<close> and \<open>R\<close> of a call, in the manager's line-left frame: the edges
  the walk ends with, or, on the quick return, the content area's own.
\<close>

definition band_edges ::
  "nscoord \<Rightarrow> nscoord \<Rightarrow> FloatInfo list \<Rightarrow> WritingMode \<Rightarrow> nscoord \<Rightarrow> nscoord \<Rightarrow> BandInfoType
     \<Rightarrow> ShapeType \<Rightarrow> LogicalRect \<Rightarrow> nsSize \<Rightarrow> nscoord \<times> nscoord" where
  "band_edges originLineLeft originBlockStart fs aWM aBCoord aBSize aBandInfoType aShapeType
       aContentArea aContainerSize =
     (if below_last_float fs (band_blockStart originBlockStart aBCoord)
      then (originLineLeft + LineLeft aContentArea aWM aContainerSize,
            originLineLeft + LineRight aContentArea aWM aContainerSize)
      else case band_walk originLineLeft originBlockStart fs aWM aBCoord aBSize aBandInfoType
                  aShapeType aContentArea aContainerSize of
             (lineLeft, lineRight, blockEnd, haveFloats) \<Rightarrow> (lineLeft, lineRight))"

text \<open>
  The inline start as the specification words it for RTL, with \<open>contentAreaSize\<close>
  read as the inline size of the content area that the caller passes.
\<close>

definition spec_inlineStart ::
  "WritingMode \<Rightarrow> nscoord \<Rightarrow> nscoord \<Rightarrow> nscoord \<Rightarrow> LogicalRect \<Rightarrow> nscoord" where
  "spec_inlineStart aWM originLineLeft L R aContentArea =
     (if IsBidiLTR aWM then L - originLineLeft else originLineLeft - R + ISize aContentArea)"

text \<open>
  \<^verbatim>\<open>GetFlowArea\<close> itself. With a saved state only the first \<^verbatim>\<open>mFloatInfoCount\<close> floats
  are in scope; a count beyond the registry's length is an out-of-range read of
  \<^verbatim>\<open>mFloats\<close>, which aborts: \<open>None\<close>.
\<close>

definition floatCount :: "nsFloatManager \<Rightarrow> SavedState option \<Rightarrow> nat" where
  "floatCount m aState =
     (case aState of Some st \<Rightarrow> s_mFloatInfoCount st | None \<Rightarrow> length (mFloats m))"

definition floats_in_scope :: "nsFloatManager \<Rightarrow> SavedState option \<Rightarrow> FloatInfo list" where
  "floats_in_scope m aState = take (floatCount m aState) (mFloats m)"

definition GetFlowArea ::
  "nsFloatManager \<Rightarrow> WritingMode \<Rightarrow> nscoord \<Rightarrow> nscoord \<Rightarrow> BandInfoType \<Rightarrow> ShapeType
     \<Rightarrow> LogicalRect \<Rightarrow> SavedState option \<Rightarrow> nsSize \<Rightarrow> nsFlowAreaRect option" where
  "GetFlowArea m aWM aBCoord aBSize aBandInfoType aShapeType aContentArea aState aContainerSize =
     (if floatCount m aState > length (mFloats m) then None
      else Some (flow_area_of (mLineLeft m) (mBlockStart m) (floats_in_scope m aState)
                   aWM aBCoord aBSize aBandInfoType aShapeType aContentArea aContainerSize))"

subsection \<open>Shapes without elliptic corners\<close>

text \<open>
  The shapes whose edges are not computed by the ellipse intercept: a box without
  corner radii, a polygon and an image. A float has such a shape, or none.
\<close>

fun shape_without_ellipse :: "ShapeInfo \<Rightarrow> bool" where
  "shape_without_ellipse (RoundedBoxShapeInfo box None) = True"
| "shape_without_ellipse (RoundedBoxShapeInfo box (Some rd)) = False"
| "shape_without_ellipse (EllipseShapeInfo c rad) = False"
| "shape_without_ellipse (PolygonShape p) = True"
| "shape_without_ellipse (ImageShape img) = True"

definition float_without_ellipse :: "FloatInfo \<Rightarrow> bool" where
  "float_without_ellipse fi =
     (case mShapeInfo fi of None \<Rightarrow> True | Some sh \<Rightarrow> shape_without_ellipse sh)"

section \<open>Sequences of operations\<close>

text \<open>The constructor: origin zero, no floats, no damage, all break flags clear.\<close>

definition nsFloatManager_ctor :: nsFloatManager where
  "nsFloatManager_ctor =
     \<lparr>mLineLeft = 0, mBlockStart = 0, mFloats = [], mFloatDamage = [],
      mPushedLeftFloatPastBreak = False, mPushedRightFloatPastBreak = False,
      mSplitLeftFloatAcrossBreak = False, mSplitRightFloatAcrossBreak = False\<rparr>"

text \<open>
  What a trial reflow does between a push and its pop: it adds floats, moves the
  origin, changes break flags and records damage.
\<close>

datatype trial_op =
    OpAddFloat nsIFrame LogicalRect WritingMode nsSize "ShapeInfo option"
  | OpTranslate nscoord nscoord
  | OpSetBreakFlags bool bool bool bool
  | OpIncludeInDamage nscoord nscoord

fun apply_trial_op :: "trial_op \<Rightarrow> nsFloatManager \<Rightarrow> nsFloatManager" where
  "apply_trial_op (OpAddFloat f r wm cs sh) m = AddFloat f r wm cs sh m"
| "apply_trial_op (OpTranslate dx dy) m = Translate dx dy m"
| "apply_trial_op (OpSetBreakFlags pl pr sl sr) m = SetBreakFlags pl pr sl sr m"
| "apply_trial_op (OpIncludeInDamage b e) m = IncludeInDamage b e m"

fun apply_trial_ops :: "trial_op list \<Rightarrow> nsFloatManager \<Rightarrow> nsFloatManager" where
  "apply_trial_ops [] m = m"
| "apply_trial_ops (op # ops) m = apply_trial_ops ops (apply_trial_op op m)"

text \<open>
  Every mutation of the manager. \<^verbatim>\<open>PushState\<close> only reads the manager, so a run may pop
  any saved state, in particular each one that an earlier \<^verbatim>\<open>PushState\<close> captured; a run
  that pops a state the registry is too short for has no result.
\<close>

datatype manager_op =
    OpTrial trial_op
  | OpRemoveTrailingRegions "nsIFrame list"
  | OpPopState SavedState

fun apply_op :: "manager_op \<Rightarrow> nsFloatManager \<Rightarrow> nsFloatManager option" where
  "apply_op (OpTrial t) m = Some (apply_trial_op t m)"
| "apply_op (OpRemoveTrailingRegions fl) m = Some (RemoveTrailingRegions fl m)"
| "apply_op (OpPopState st) m = PopState st m"

fun run_ops :: "manager_op list \<Rightarrow> nsFloatManager \<Rightarrow> nsFloatManager option" where
  "run_ops [] m = Some m"
| "run_ops (op # ops) m = (case apply_op op m of None \<Rightarrow> None | Some m' \<Rightarrow> run_ops ops m')"

section \<open>Example data\<close>

definition ex_wm :: WritingMode where
  "ex_wm = \<lparr>IsBidiLTR = True, IsVertical = False\<rparr>"

definition ex_wm_rtl :: WritingMode where
  "ex_wm_rtl = \<lparr>IsBidiLTR = False, IsVertical = False\<rparr>"

definition ex_container :: nsSize where
  "ex_container = \<lparr>sz_width = 1000, sz_height = 1000\<rparr>"

definition ex_left_frame :: nsIFrame where
  "ex_left_frame = \<lparr>frame_id = 1, PhysicalFloats = StyleFloat_Left\<rparr>"

definition ex_right_frame :: nsIFrame where
  "ex_right_frame = \<lparr>frame_id = 2, PhysicalFloats = StyleFloat_Right\<rparr>"

definition ex_rect :: "nscoord \<Rightarrow> nscoord \<Rightarrow> nscoord \<Rightarrow> nscoord \<Rightarrow> LogicalRect" where
  "ex_rect i b w h = \<lparr>IStart = i, BStart = b, ISize = w, BSize = h\<rparr>"

definition ex_triangle :: "nsPoint list" where
  "ex_triangle = [\<lparr>pt_x = 0, pt_y = 0\<rparr>, \<lparr>pt_x = 200, pt_y = 0\<rparr>, \<lparr>pt_x = 0, pt_y = 200\<rparr>]"

definition ex_one_left :: nsFloatManager where
  "ex_one_left = AddFloat ex_left_frame (ex_rect 0 0 200 100) ex_wm ex_container None
                   nsFloatManager_ctor"

definition ex_shaped_float :: FloatInfo where
  "ex_shaped_float =
     \<lparr>mFrame = ex_left_frame, mLeftBEnd = 200, mRightBEnd = nscoord_MIN,
      mRect = \<lparr>r_x = 0, r_y = 0, r_width = 200, r_height = 200\<rparr>,
      mShapeInfo = Some (PolygonShape (PolygonShapeInfo_ctor ex_triangle))\<rparr>"

definition ex_ops :: "manager_op list" where
  "ex_ops =
     [OpTrial (OpAddFloat ex_left_frame (ex_rect 0 0 200 100) ex_wm ex_container None),
      OpTrial (OpAddFloat ex_right_frame (ex_rect 800 0 200 150) ex_wm ex_container None),
      OpTrial (OpAddFloat ex_left_frame (ex_rect 0 100 200 80) ex_wm ex_container None),
      OpTrial (OpAddFloat \<lparr>frame_id = 4, PhysicalFloats = StyleFloat_Right\<rparr>
                 (ex_rect 800 150 200 300) ex_wm ex_container None),
      OpRemoveTrailingRegions [\<lparr>frame_id = 4, PhysicalFloats = StyleFloat_Right\<rparr>]]"

definition ex_three_floats :: nsFloatManager where
  "ex_three_floats =
     AddFloat ex_left_frame (ex_rect 0 100 200 80) ex_wm ex_container None
       (AddFloat ex_right_frame (ex_rect 800 0 200 150) ex_wm ex_container None
          (AddFloat ex_left_frame (ex_rect 0 0 200 100) ex_wm ex_container None
             nsFloatManager_ctor))"

definition ex_collinear :: "nsPoint list" where
  "ex_collinear = [\<lparr>pt_x = 0, pt_y = 0\<rparr>, \<lparr>pt_x = 10, pt_y = 10\<rparr>, \<lparr>pt_x = 20, pt_y = 20\<rparr>]"

definition ex_empty_polygon_float :: FloatInfo where
  "ex_empty_polygon_float =
     \<lparr>mFrame = ex_left_frame, mLeftBEnd = 200, mRightBEnd = nscoord_MIN,
      mRect = \<lparr>r_x = 0, r_y = 0, r_width = 200, r_height = 200\<rparr>,
      mShapeInfo = Some (PolygonShape (PolygonShapeInfo_ctor ex_collinear))\<rparr>"

text \<open>
  A manager whose one left float has the collinear, hence empty, polygon as its shape,
  and a triangle with legs of 65536 app units.
\<close>

definition ex_collinear_float :: nsFloatManager where
  "ex_collinear_float =
     AddFloat ex_left_frame (ex_rect 0 0 200 200) ex_wm ex_container
       (Some (PolygonShape (PolygonShapeInfo_ctor ex_collinear)))
       nsFloatManager_ctor"

definition ex_large_triangle :: "nsPoint list" where
  "ex_large_triangle =
     [\<lparr>pt_x = 0, pt_y = 0\<rparr>, \<lparr>pt_x = 65536, pt_y = 0\<rparr>, \<lparr>pt_x = 0, pt_y = 65536\<rparr>]"

definition ex_rtl_one_left :: nsFloatManager where
  "ex_rtl_one_left = AddFloat ex_left_frame (ex_rect 800 0 200 100) ex_wm_rtl ex_container None
                       nsFloatManager_ctor"

definition ex_wide_left :: nsFloatManager where
  "ex_wide_left = AddFloat ex_left_frame (ex_rect 0 0 1200 100) ex_wm ex_container None
                    nsFloatManager_ctor"

text \<open>
  A left float of 120000 app units (2000 CSS pixels) square whose shape is the circle
  inscribed in its margin box, in a container of 200000 app units.
\<close>

definition ex_wide_container :: nsSize where
  "ex_wide_container = \<lparr>sz_width = 200000, sz_height = 200000\<rparr>"

definition ex_circle_float :: nsFloatManager where
  "ex_circle_float =
     AddFloat ex_left_frame (ex_rect 0 0 120000 120000) ex_wm ex_wide_container
       (Some (EllipseShapeInfo \<lparr>pt_x = 60000, pt_y = 60000\<rparr>
                \<lparr>sz_width = 60000, sz_height = 60000\<rparr>))
       nsFloatManager_ctor"

text \<open>The order on registry entries that compares both cumulative summaries.\<close>

abbreviation (input) summary_le :: "FloatInfo \<Rightarrow> FloatInfo \<Rightarrow> bool" where
  "summary_le a b \<equiv> mLeftBEnd a \<le> mLeftBEnd b \<and> mRightBEnd a \<le> mRightBEnd b"

section \<open>Properties\<close>

subsection \<open>Evaluation rules for the example data\<close>

lemmas poly_eval = PolygonShapeInfo_ctor_def Determinant_def point_minus_def wrap32_def
  Polygon_LineRight_def Polygon_LineLeft_def ComputeLineIntercept_def line_intercept_step_def
  polygon_XInterceptAtY_def tdiv_def std_max_def std_min_def upt_rec ex_triangle_def
  nscoord_MAX_def nscoord_MIN_def Let_def

lemmas add_eval = AddFloat_def FloatInfo_ctor_def HasAnyFloats_def
  ConvertToFloatLogical_def LineLeft_def LineRight_def IEnd_def rect_MoveBy_def rect_IsEmpty_def
  fi_BEnd_def YMost_def XMost_def nscoord_MAX_def nscoord_MIN_def Let_def
  nsFloatManager_ctor_def ex_wm_def ex_container_def ex_left_frame_def ex_right_frame_def
  ex_rect_def LogicalSize_ISize_def

lemmas flow_eval = GetFlowArea_def floatCount_def floats_in_scope_def flow_area_of_def
  band_blockStart_def below_last_float_def band_init_def band_walk_def band_edges_def
  band_step_def FloatInfo_IsEmpty_def FloatInfo_BStart_def FloatInfo_BEnd_def
  FloatInfo_LineLeft_def FloatInfo_LineRight_def fi_IsEmpty_def fi_BStart_def fi_LineLeft_def
  fi_LineRight_def mk_nsFlowAreaRect_def

subsection \<open>Shapes are clipped to the margin box\<close>

text \<open>
  Claim C1. For a float that has a shape, the edges and the block extent that a
  \<open>ShapeOutside\<close> query reads are the shape's values clipped to the margin-box rect:
  line-left is the larger of the rect's and the shape's, line-right the smaller,
  block start the larger, block end the smaller; so none of them lies outside the
  margin box on its own side.
\<close>

theorem shape_clipped_to_margin_box:
  assumes "mShapeInfo fi = Some sh"
  shows "FloatInfo_LineLeft fi ShapeOutside bs be = max (r_x (mRect fi)) (shape_LineLeft sh bs be)
       \<and> FloatInfo_LineRight fi ShapeOutside bs be = min (XMost (mRect fi)) (shape_LineRight sh bs be)
       \<and> FloatInfo_BStart fi ShapeOutside = max (r_y (mRect fi)) (shape_BStart sh)
       \<and> FloatInfo_BEnd fi ShapeOutside = min (YMost (mRect fi)) (shape_BEnd sh)
       \<and> r_x (mRect fi) \<le> FloatInfo_LineLeft fi ShapeOutside bs be
       \<and> FloatInfo_LineRight fi ShapeOutside bs be \<le> XMost (mRect fi)
       \<and> r_y (mRect fi) \<le> FloatInfo_BStart fi ShapeOutside
       \<and> FloatInfo_BEnd fi ShapeOutside \<le> YMost (mRect fi)"
  using assms
  by (simp add: FloatInfo_LineLeft_def FloatInfo_LineRight_def FloatInfo_BStart_def
      FloatInfo_BEnd_def fi_LineLeft_def fi_LineRight_def fi_BStart_def fi_BEnd_def)

theorem shape_clipped_to_margin_box_witness:
  "mShapeInfo ex_shaped_float = Some (PolygonShape (PolygonShapeInfo_ctor ex_triangle))
   \<and> FloatInfo_LineRight ex_shaped_float ShapeOutside 150 160 = 50
   \<and> FloatInfo_LineLeft ex_shaped_float ShapeOutside 150 160 = 0
   \<and> FloatInfo_BStart ex_shaped_float ShapeOutside = 0
   \<and> FloatInfo_BEnd ex_shaped_float ShapeOutside = 200"
  using shape_clipped_to_margin_box [of ex_shaped_float
          "PolygonShape (PolygonShapeInfo_ctor ex_triangle)" 150 160]
  by (simp add: ex_shaped_float_def XMost_def YMost_def poly_eval)

subsection \<open>\<^verbatim>\<open>ClearFloats\<close>\<close>

text \<open>
  Claim C5, as amended. \<^verbatim>\<open>ClearFloats\<close> returns the maximum sentinel whenever
  \<^verbatim>\<open>DONT_CLEAR_PUSHED_FLOATS\<close> is not among the flags and the break type is Left or
  Both with a left float pushed or split across the break, or Right or Both with a
  right one. In every other case it returns \<open>aBCoord\<close> when the registry is empty, and
  otherwise the larger of \<open>aBCoord + mBlockStart\<close> and the tail's cumulative block end
  of the cleared side (both sides for Both, no side for any other break type), minus
  \<open>mBlockStart\<close>. That value can be the sentinel as well, so the sentinel is not
  returned only in the first case.
\<close>

theorem ClearFloats_characterised:
  "ClearFloats m aBCoord aBreakType aFlags =
     (if aFlags AND DONT_CLEAR_PUSHED_FLOATS = 0 \<and>
         (((aBreakType = StyleClear_Left \<or> aBreakType = StyleClear_Both) \<and>
             (mPushedLeftFloatPastBreak m \<or> mSplitLeftFloatAcrossBreak m)) \<or>
          ((aBreakType = StyleClear_Right \<or> aBreakType = StyleClear_Both) \<and>
             (mPushedRightFloatPastBreak m \<or> mSplitRightFloatAcrossBreak m)))
      then nscoord_MAX
      else if mFloats m = [] then aBCoord
      else if aBreakType = StyleClear_Left
      then max (aBCoord + mBlockStart m) (mLeftBEnd (last (mFloats m))) - mBlockStart m
      else if aBreakType = StyleClear_Right
      then max (aBCoord + mBlockStart m) (mRightBEnd (last (mFloats m))) - mBlockStart m
      else if aBreakType = StyleClear_Both
      then max (aBCoord + mBlockStart m)
               (max (mLeftBEnd (last (mFloats m))) (mRightBEnd (last (mFloats m))))
             - mBlockStart m
      else aBCoord)"
  by (cases aBreakType) (auto simp: ClearFloats_def ClearContinues_def HasAnyFloats_def Let_def)

theorem ClearFloats_characterised_witness:
  "ClearFloats (SetBreakFlags True False False False ex_one_left) 0 StyleClear_Left 0 = nscoord_MAX
   \<and> ClearFloats (SetBreakFlags True False False False ex_one_left) 0 StyleClear_Left
        DONT_CLEAR_PUSHED_FLOATS = 100
   \<and> ClearFloats ex_one_left 30 StyleClear_Both 0 = 100
   \<and> ClearFloats ex_one_left 130 StyleClear_Right 0 = 130
   \<and> ClearFloats ex_one_left 30 StyleClear_Line 0 = 30
   \<and> ClearFloats nsFloatManager_ctor 30 StyleClear_Left 0 = 30"
  using ClearFloats_characterised [of "SetBreakFlags True False False False ex_one_left" 0
          StyleClear_Left 0]
    ClearFloats_characterised [of "SetBreakFlags True False False False ex_one_left" 0
       StyleClear_Left DONT_CLEAR_PUSHED_FLOATS]
    ClearFloats_characterised [of ex_one_left 30 StyleClear_Both 0]
    ClearFloats_characterised [of ex_one_left 130 StyleClear_Right 0]
    ClearFloats_characterised [of ex_one_left 30 StyleClear_Line 0]
    ClearFloats_characterised [of nsFloatManager_ctor 30 StyleClear_Left 0]
  by (simp add: ex_one_left_def SetBreakFlags_def DONT_CLEAR_PUSHED_FLOATS_def add_eval)

text \<open>
  The sentinel is returned although no float was pushed or split: on the empty
  registry of a new manager for \<open>aBCoord\<close> the sentinel itself, and on a registry with
  one left float for the same \<open>aBCoord\<close>.
\<close>

theorem ClearFloats_sentinel_counterexample:
  "ClearFloats nsFloatManager_ctor nscoord_MAX StyleClear_Left 0 = nscoord_MAX
   \<and> \<not> mPushedLeftFloatPastBreak nsFloatManager_ctor
   \<and> \<not> mSplitLeftFloatAcrossBreak nsFloatManager_ctor
   \<and> \<not> mPushedRightFloatPastBreak nsFloatManager_ctor
   \<and> \<not> mSplitRightFloatAcrossBreak nsFloatManager_ctor
   \<and> ClearFloats ex_one_left nscoord_MAX StyleClear_Left 0 = nscoord_MAX
   \<and> \<not> mPushedLeftFloatPastBreak ex_one_left
   \<and> \<not> mSplitLeftFloatAcrossBreak ex_one_left"
  by (simp add: ClearFloats_def ClearContinues_def ex_one_left_def add_eval)

text \<open>
  Claim C9. On an empty registry, when the sentinel case does not apply,
  \<^verbatim>\<open>ClearFloats\<close> returns \<open>aBCoord\<close> unchanged for every break type.
\<close>

theorem ClearFloats_empty_registry:
  assumes "mFloats m = []"
    and "\<not> (aFlags AND DONT_CLEAR_PUSHED_FLOATS = 0 \<and> ClearContinues m aBreakType)"
  shows "ClearFloats m aBCoord aBreakType aFlags = aBCoord"
  using assms by (auto simp: ClearFloats_def HasAnyFloats_def)

theorem ClearFloats_empty_registry_witness:
  "mFloats nsFloatManager_ctor = [] \<and> ClearFloats nsFloatManager_ctor 7 StyleClear_Both 0 = 7"
  using ClearFloats_empty_registry [of nsFloatManager_ctor 0 StyleClear_Both 7]
  by (simp add: nsFloatManager_ctor_def ClearContinues_def)

subsection \<open>Checkpoints\<close>

lemma apply_trial_op_floats:
  "\<exists>ys. mFloats (apply_trial_op op m) = mFloats m @ ys"
  by (cases op) (simp_all add: AddFloat_def Translate_def SetBreakFlags_def IncludeInDamage_def Let_def)

lemma apply_trial_ops_floats:
  "\<exists>ys. mFloats (apply_trial_ops ops m) = mFloats m @ ys"
proof (induction ops arbitrary: m)
  case Nil
  show ?case by simp
next
  case (Cons op ops)
  obtain ys where a: "mFloats (apply_trial_op op m) = mFloats m @ ys"
    using apply_trial_op_floats by blast
  obtain zs where b: "mFloats (apply_trial_ops ops (apply_trial_op op m))
                      = mFloats (apply_trial_op op m) @ zs"
    using Cons.IH by blast
  show ?case using a b by simp
qed

text \<open>
  Claim C4. Push a state, run any sequence of \<^verbatim>\<open>AddFloat\<close>, origin changes, flag
  changes and damage reports, then pop the state: the pop succeeds, the origin and the
  four break flags are the captured ones, the float count is the captured count (the
  registry is the one at the push), and the damage sink is the one accumulated up to
  the pop, which the pop leaves alone.
\<close>

theorem PushState_PopState_restores:
  "\<exists>m'. PopState (PushState m) (apply_trial_ops ops m) = Some m'
     \<and> mLineLeft m' = s_mLineLeft (PushState m) \<and> mLineLeft m' = mLineLeft m
     \<and> mBlockStart m' = s_mBlockStart (PushState m) \<and> mBlockStart m' = mBlockStart m
     \<and> mPushedLeftFloatPastBreak m' = s_mPushedLeftFloatPastBreak (PushState m)
     \<and> mPushedLeftFloatPastBreak m' = mPushedLeftFloatPastBreak m
     \<and> mPushedRightFloatPastBreak m' = s_mPushedRightFloatPastBreak (PushState m)
     \<and> mPushedRightFloatPastBreak m' = mPushedRightFloatPastBreak m
     \<and> mSplitLeftFloatAcrossBreak m' = s_mSplitLeftFloatAcrossBreak (PushState m)
     \<and> mSplitLeftFloatAcrossBreak m' = mSplitLeftFloatAcrossBreak m
     \<and> mSplitRightFloatAcrossBreak m' = s_mSplitRightFloatAcrossBreak (PushState m)
     \<and> mSplitRightFloatAcrossBreak m' = mSplitRightFloatAcrossBreak m
     \<and> length (mFloats m') = s_mFloatInfoCount (PushState m)
     \<and> mFloats m' = mFloats m
     \<and> mFloatDamage m' = mFloatDamage (apply_trial_ops ops m)"
proof -
  obtain ys where "mFloats (apply_trial_ops ops m) = mFloats m @ ys"
    using apply_trial_ops_floats by blast
  then show ?thesis
    by (simp add: PopState_def PushState_def)
qed

theorem PushState_PopState_restores_witness:
  "\<exists>m'. PopState (PushState ex_one_left)
           (apply_trial_ops
              [OpAddFloat ex_right_frame (ex_rect 800 0 200 100) ex_wm ex_container None,
               OpTranslate 10 20, OpSetBreakFlags True False False True,
               OpIncludeInDamage 0 100,
               OpAddFloat ex_left_frame (ex_rect 0 100 200 100) ex_wm ex_container None]
              ex_one_left) = Some m'
     \<and> mLineLeft m' = 0 \<and> mBlockStart m' = 0 \<and> length (mFloats m') = 1
     \<and> \<not> mPushedLeftFloatPastBreak m' \<and> \<not> mSplitRightFloatAcrossBreak m'
     \<and> mFloatDamage m' = [(20, 120)]"
  using PushState_PopState_restores [of ex_one_left
          "[OpAddFloat ex_right_frame (ex_rect 800 0 200 100) ex_wm ex_container None,
               OpTranslate 10 20, OpSetBreakFlags True False False True,
               OpIncludeInDamage 0 100,
               OpAddFloat ex_left_frame (ex_rect 0 100 200 100) ex_wm ex_container None]"]
  by (auto simp add: ex_one_left_def PushState_def add_eval Translate_def SetBreakFlags_def
        IncludeInDamage_def)

subsection \<open>The cumulative summaries\<close>

lemma summaries_snoc:
  assumes "sorted_wrt summary_le fs"
    and "fs \<noteq> [] \<Longrightarrow> summary_le (last fs) x"
  shows "sorted_wrt summary_le (fs @ [x])"
proof -
  have "\<forall>a \<in> set fs. summary_le a x"
  proof
    fix a assume a: "a \<in> set fs"
    then have ne: "fs \<noteq> []" by auto
    from a obtain i where i: "i < length fs" "fs ! i = a" by (auto simp: in_set_conv_nth)
    have "summary_le a (last fs)"
    proof (cases "i = length fs - 1")
      case True
      then show ?thesis using i ne by (simp add: last_conv_nth)
    next
      case False
      then have "i < length fs - 1" using i by simp
      then have "summary_le (fs ! i) (fs ! (length fs - 1))"
        using assms(1) ne by (simp add: sorted_wrt_iff_nth_less)
      then show ?thesis using i ne by (simp add: last_conv_nth)
    qed
    then show "summary_le a x" using assms(2)[OF ne] by linarith
  qed
  then show ?thesis using assms(1) by (simp add: sorted_wrt_append)
qed

lemma AddFloat_summaries:
  assumes "sorted_wrt summary_le (mFloats m)"
  shows "sorted_wrt summary_le (mFloats (AddFloat f r wm cs sh m))"
  unfolding AddFloat_def Let_def
  by (simp add: HasAnyFloats_def, intro conjI impI summaries_snoc assms; simp)

lemma drop_trailing_is_drop: "\<exists>k. drop_trailing S xs = drop k xs"
proof (induction xs)
  case Nil
  show ?case by simp
next
  case (Cons a xs)
  show ?case
  proof (cases "frame_id (mFrame a) \<notin> S")
    case True
    then have "drop_trailing S (a # xs) = drop 0 (a # xs)" by simp
    then show ?thesis by blast
  next
    case False
    obtain k where "drop_trailing S xs = drop k xs" using Cons.IH by blast
    with False have "drop_trailing S (a # xs) = drop (Suc k) (a # xs)" by simp
    then show ?thesis by blast
  qed
qed

lemma RemoveTrailingRegions_is_take:
  "\<exists>n. mFloats (RemoveTrailingRegions fl m) = take n (mFloats m)"
proof (cases "fl = []")
  case True
  then have "mFloats (RemoveTrailingRegions fl m) = take (length (mFloats m)) (mFloats m)"
    by (simp add: RemoveTrailingRegions_def)
  then show ?thesis by blast
next
  case False
  obtain k where "drop_trailing (frame_id ` set fl) (rev (mFloats m)) = drop k (rev (mFloats m))"
    using drop_trailing_is_drop by blast
  with False have "mFloats (RemoveTrailingRegions fl m) = take (length (mFloats m) - k) (mFloats m)"
    by (simp add: RemoveTrailingRegions_def rev_drop)
  then show ?thesis by blast
qed

lemma apply_op_summaries:
  assumes "sorted_wrt summary_le (mFloats m)" and "apply_op op m = Some m'"
  shows "sorted_wrt summary_le (mFloats m')"
proof (cases op)
  case (OpTrial t)
  then show ?thesis using assms
    by (cases t) (auto simp: AddFloat_summaries Translate_def SetBreakFlags_def IncludeInDamage_def)
next
  case (OpRemoveTrailingRegions fl)
  obtain n where "mFloats (RemoveTrailingRegions fl m) = take n (mFloats m)"
    using RemoveTrailingRegions_is_take by blast
  then show ?thesis using assms OpRemoveTrailingRegions by (auto simp: sorted_wrt_take)
next
  case (OpPopState st)
  then show ?thesis using assms
    by (auto simp: PopState_def sorted_wrt_take split: if_splits)
qed

lemma run_ops_summaries:
  assumes "sorted_wrt summary_le (mFloats m)" and "run_ops ops m = Some m'"
  shows "sorted_wrt summary_le (mFloats m')"
  using assms
proof (induction ops arbitrary: m)
  case Nil
  then show ?case by simp
next
  case (Cons op ops)
  then show ?case
    by (auto split: option.splits dest: apply_op_summaries)
qed

text \<open>
  Claim C3. In every state reached from a new manager by \<^verbatim>\<open>AddFloat\<close>,
  \<^verbatim>\<open>RemoveTrailingRegions\<close>, \<^verbatim>\<open>PopState\<close> (and the operations that leave the registry
  alone), each entry's \<open>mLeftBEnd\<close> and \<open>mRightBEnd\<close> are at least those of the entry
  before it. \<^verbatim>\<open>AddFloat\<close> appends one entry whose summaries are the previous tail's (the
  minimum sentinel on an empty registry), with the one for the float's own side raised
  to the block end of the new float's margin rect when that is larger.
\<close>

theorem cumulative_summaries_monotone:
  "(run_ops ops nsFloatManager_ctor = Some m \<longrightarrow>
      (\<forall>i. 1 \<le> i \<and> i < length (mFloats m) \<longrightarrow>
         mLeftBEnd (mFloats m ! (i - 1)) \<le> mLeftBEnd (mFloats m ! i) \<and>
         mRightBEnd (mFloats m ! (i - 1)) \<le> mRightBEnd (mFloats m ! i)))
   \<and> (\<exists>info. mFloats (AddFloat f r wm cs sh m0) = mFloats m0 @ [info]
        \<and> mLeftBEnd info =
            (if PhysicalFloats f = StyleFloat_Left
             then max (if mFloats m0 = [] then nscoord_MIN else mLeftBEnd (last (mFloats m0)))
                      (YMost (mRect info))
             else (if mFloats m0 = [] then nscoord_MIN else mLeftBEnd (last (mFloats m0))))
        \<and> mRightBEnd info =
            (if PhysicalFloats f = StyleFloat_Left
             then (if mFloats m0 = [] then nscoord_MIN else mRightBEnd (last (mFloats m0)))
             else max (if mFloats m0 = [] then nscoord_MIN else mRightBEnd (last (mFloats m0)))
                      (YMost (mRect info))))"
proof (intro conjI impI allI)
  fix i
  assume run: "run_ops ops nsFloatManager_ctor = Some m"
    and i: "1 \<le> i \<and> i < length (mFloats m)"
  have "sorted_wrt summary_le (mFloats nsFloatManager_ctor)"
    by (simp add: nsFloatManager_ctor_def)
  then have "sorted_wrt summary_le (mFloats m)"
    using run by (rule run_ops_summaries)
  moreover have "i - 1 < i" using i by simp
  ultimately have "summary_le (mFloats m ! (i - 1)) (mFloats m ! i)"
    using i by (simp add: sorted_wrt_iff_nth_less)
  then show "mLeftBEnd (mFloats m ! (i - 1)) \<le> mLeftBEnd (mFloats m ! i)"
    and "mRightBEnd (mFloats m ! (i - 1)) \<le> mRightBEnd (mFloats m ! i)" by simp_all
next
  show "\<exists>info. mFloats (AddFloat f r wm cs sh m0) = mFloats m0 @ [info]
        \<and> mLeftBEnd info =
            (if PhysicalFloats f = StyleFloat_Left
             then max (if mFloats m0 = [] then nscoord_MIN else mLeftBEnd (last (mFloats m0)))
                      (YMost (mRect info))
             else (if mFloats m0 = [] then nscoord_MIN else mLeftBEnd (last (mFloats m0))))
        \<and> mRightBEnd info =
            (if PhysicalFloats f = StyleFloat_Left
             then (if mFloats m0 = [] then nscoord_MIN else mRightBEnd (last (mFloats m0)))
             else max (if mFloats m0 = [] then nscoord_MIN else mRightBEnd (last (mFloats m0)))
                      (YMost (mRect info)))"
    by (simp add: AddFloat_def Let_def HasAnyFloats_def fi_BEnd_def FloatInfo_ctor_def)
qed

theorem cumulative_summaries_monotone_witness:
  "run_ops ex_ops nsFloatManager_ctor = Some ex_three_floats
   \<and> length (mFloats ex_three_floats) = 3
   \<and> mLeftBEnd (mFloats ex_three_floats ! 0) \<le> mLeftBEnd (mFloats ex_three_floats ! 1)
   \<and> mRightBEnd (mFloats ex_three_floats ! 0) \<le> mRightBEnd (mFloats ex_three_floats ! 1)
   \<and> mLeftBEnd (mFloats ex_three_floats ! 1) \<le> mLeftBEnd (mFloats ex_three_floats ! 2)
   \<and> mRightBEnd (mFloats ex_three_floats ! 1) \<le> mRightBEnd (mFloats ex_three_floats ! 2)"
proof -
  have run: "run_ops ex_ops nsFloatManager_ctor = Some ex_three_floats"
    by (simp add: ex_ops_def ex_three_floats_def RemoveTrailingRegions_def add_eval)
  have len: "length (mFloats ex_three_floats) = 3"
    by (simp add: ex_three_floats_def AddFloat_def Let_def nsFloatManager_ctor_def)
  have all: "\<forall>i. 1 \<le> i \<and> i < length (mFloats ex_three_floats) \<longrightarrow>
         mLeftBEnd (mFloats ex_three_floats ! (i - 1)) \<le> mLeftBEnd (mFloats ex_three_floats ! i) \<and>
         mRightBEnd (mFloats ex_three_floats ! (i - 1)) \<le> mRightBEnd (mFloats ex_three_floats ! i)"
    using cumulative_summaries_monotone [where ops = ex_ops and m = ex_three_floats] run
    by blast
  have "(1::nat) \<le> 1 \<and> 1 < length (mFloats ex_three_floats)"
    and "(1::nat) \<le> 2 \<and> 2 < length (mFloats ex_three_floats)"
    using len by simp_all
  then show ?thesis using all [rule_format, of 1] all [rule_format, of 2] run len
    by simp
qed

subsection \<open>Polygons\<close>

lemma wrap32_id: "fits32 v \<Longrightarrow> wrap32 v = v"
  by (simp add: fits32_def wrap32_def)

lemma Determinant_exact:
  assumes "determinant_in_range p0 p1 p2"
  shows "Determinant (point_minus p2 p0) (point_minus p1 p0) =
           (pt_x p2 - pt_x p0) * (pt_y p1 - pt_y p0) - (pt_y p2 - pt_y p0) * (pt_x p1 - pt_x p0)"
  using assms by (simp add: determinant_in_range_def Determinant_def point_minus_def wrap32_id)

lemma isEntirelyCollinear_iff:
  "isEntirelyCollinear p0 p1 ps \<longleftrightarrow>
     (\<forall>p \<in> set ps. Determinant (point_minus p p0) (point_minus p1 p0) = 0)"
  by (induction ps) auto

lemma set_drop2_conv:
  "(\<forall>p \<in> set (drop 2 vs). P p) \<longleftrightarrow> (\<forall>i. 2 \<le> i \<and> i < length vs \<longrightarrow> P (vs ! i))"
proof
  assume a: "\<forall>p \<in> set (drop 2 vs). P p"
  show "\<forall>i. 2 \<le> i \<and> i < length vs \<longrightarrow> P (vs ! i)"
  proof (intro allI impI)
    fix i assume i: "2 \<le> i \<and> i < length vs"
    then obtain j where j: "i = 2 + j" using le_Suc_ex by blast
    have "drop 2 vs ! j = vs ! (2 + j)" using i j by (intro nth_drop) simp
    moreover have "j < length (drop 2 vs)" using i j by simp
    ultimately have "vs ! i \<in> set (drop 2 vs)" using j nth_mem by metis
    then show "P (vs ! i)" using a by blast
  qed
next
  assume a: "\<forall>i. 2 \<le> i \<and> i < length vs \<longrightarrow> P (vs ! i)"
  show "\<forall>p \<in> set (drop 2 vs). P p"
  proof
    fix p assume "p \<in> set (drop 2 vs)"
    then obtain j where j: "j < length (drop 2 vs)" "drop 2 vs ! j = p"
      by (auto simp: in_set_conv_nth)
    have "drop 2 vs ! j = vs ! (2 + j)" using j by (intro nth_drop) simp
    then have "vs ! (2 + j) = p" using j by simp
    moreover have "2 \<le> 2 + j \<and> 2 + j < length vs" using j by simp
    ultimately show "P p" using a by blast
  qed
qed

lemma mEmpty_ctor_iff:
  "mEmpty (PolygonShapeInfo_ctor vs) \<longleftrightarrow>
      length vs < 3 \<or>
      (\<forall>i. 2 \<le> i \<and> i < length vs \<longrightarrow>
         Determinant (point_minus (vs ! i) (vs ! 0)) (point_minus (vs ! 1) (vs ! 0)) = 0)"
  unfolding set_drop2_conv [of vs "\<lambda>p. Determinant (point_minus p (vs ! 0)) (point_minus (vs ! 1) (vs ! 0)) = 0", symmetric]
  by (simp add: PolygonShapeInfo_ctor_def Let_def isEntirelyCollinear_iff split: prod.splits)

lemma block_extent_Min_Max:
  "block_extent vs (a, b) = (Min (insert a (pt_y ` set vs)), Max (insert b (pt_y ` set vs)))"
proof (induction vs arbitrary: a b)
  case Nil
  show ?case by simp
next
  case (Cons v vs)
  have "Min (insert (min a (pt_y v)) (pt_y ` set vs)) = Min (insert a (insert (pt_y v) (pt_y ` set vs)))"
    by (cases "pt_y ` set vs = {}") (simp_all add: min.assoc min.commute min.left_commute)
  moreover have "Max (insert (max b (pt_y v)) (pt_y ` set vs)) = Max (insert b (insert (pt_y v) (pt_y ` set vs)))"
    by (cases "pt_y ` set vs = {}") (simp_all add: max.assoc max.commute max.left_commute)
  ultimately show ?case using Cons.IH by simp
qed

lemma polygon_extent:
  assumes ne: "\<not> mEmpty (PolygonShapeInfo_ctor vs)"
  shows "poly_mBStart (PolygonShapeInfo_ctor vs) = min nscoord_MAX (Min (pt_y ` set vs))"
    and "poly_mBEnd (PolygonShapeInfo_ctor vs) = max nscoord_MIN (Max (pt_y ` set vs))"
proof -
  have len: "\<not> length vs < 3"
    using ne by (auto simp: PolygonShapeInfo_ctor_def Let_def)
  then have nonempty: "pt_y ` set vs \<noteq> {}" by auto
  have col: "\<not> isEntirelyCollinear (vs ! 0) (vs ! 1) (drop 2 vs)"
    using ne len by (auto simp: PolygonShapeInfo_ctor_def Let_def split: if_splits)
  have bs: "poly_mBStart (PolygonShapeInfo_ctor vs) = Min (insert nscoord_MAX (pt_y ` set vs))"
    and be: "poly_mBEnd (PolygonShapeInfo_ctor vs) = Max (insert nscoord_MIN (pt_y ` set vs))"
    using len col by (simp_all add: PolygonShapeInfo_ctor_def Let_def block_extent_Min_Max)
  show "poly_mBStart (PolygonShapeInfo_ctor vs) = min nscoord_MAX (Min (pt_y ` set vs))"
    using bs nonempty by simp
  show "poly_mBEnd (PolygonShapeInfo_ctor vs) = max nscoord_MIN (Max (pt_y ` set vs))"
    using be nonempty by simp
qed

lemma polygon_extent_in_range:
  assumes ne: "\<not> mEmpty (PolygonShapeInfo_ctor vs)"
    and r: "\<forall>v \<in> set vs. nscoord_MIN \<le> pt_y v \<and> pt_y v \<le> nscoord_MAX"
  shows "poly_mBStart (PolygonShapeInfo_ctor vs) = Min (pt_y ` set vs)
       \<and> poly_mBEnd (PolygonShapeInfo_ctor vs) = Max (pt_y ` set vs)"
proof -
  have len: "\<not> length vs < 3"
    using ne by (auto simp: PolygonShapeInfo_ctor_def Let_def)
  then have nonempty: "pt_y ` set vs \<noteq> {}" by auto
  have "Min (pt_y ` set vs) \<in> pt_y ` set vs" and "Max (pt_y ` set vs) \<in> pt_y ` set vs"
    using nonempty by (simp_all add: Min_in Max_in)
  then have "Min (pt_y ` set vs) \<le> nscoord_MAX" and "nscoord_MIN \<le> Max (pt_y ` set vs)"
    using r by auto
  then show ?thesis using polygon_extent [OF ne] by simp
qed

text \<open>
  Claim C7, as amended. A polygon built from fewer than three vertices is empty. For a
  vertex list on which no step of the determinant computation leaves the 32-bit range,
  the polygon is empty exactly when the list has fewer than three vertices or
  \<open>(x\<^sub>i - x\<^sub>0) (y\<^sub>1 - y\<^sub>0) - (y\<^sub>i - y\<^sub>0) (x\<^sub>1 - x\<^sub>0)\<close>, the determinant of \<open>p\<^sub>i - p\<^sub>0\<close> and
  \<open>p\<^sub>1 - p\<^sub>0\<close>, is zero for every \<open>i \<ge> 2\<close>. A float whose shape is an empty polygon is
  passed over by the walk of a \<open>ShapeOutside\<close> query; the walk of a \<open>Margin\<close> query
  does not read the shape and passes a float over exactly when its margin rect is
  empty. A non-empty polygon's block start and end are the minimum and maximum of the
  vertices' block coordinates, folded from the two sentinels; for vertices within the
  coordinate range they are the plain minimum and maximum.
\<close>

theorem polygon_empty_and_extent:
  "(length vs < 3 \<longrightarrow> mEmpty (PolygonShapeInfo_ctor vs))
   \<and> ((\<forall>i. 2 \<le> i \<and> i < length vs \<longrightarrow> determinant_in_range (vs ! 0) (vs ! 1) (vs ! i)) \<longrightarrow>
        (mEmpty (PolygonShapeInfo_ctor vs) \<longleftrightarrow>
           length vs < 3 \<or>
           (\<forall>i. 2 \<le> i \<and> i < length vs \<longrightarrow>
              (pt_x (vs ! i) - pt_x (vs ! 0)) * (pt_y (vs ! 1) - pt_y (vs ! 0))
              - (pt_y (vs ! i) - pt_y (vs ! 0)) * (pt_x (vs ! 1) - pt_x (vs ! 0)) = 0)))
   \<and> (mShapeInfo fi = Some (PolygonShape p) \<and> mEmpty p \<longrightarrow>
        band_loop aBandInfoType ShapeOutside blockStart (fi # rest) st =
          (if mLeftBEnd fi \<le> blockStart \<and> mRightBEnd fi \<le> blockStart then st
           else band_loop aBandInfoType ShapeOutside blockStart rest st))
   \<and> band_loop aBandInfoType Margin blockStart (fi # rest) st =
          (if mLeftBEnd fi \<le> blockStart \<and> mRightBEnd fi \<le> blockStart then st
           else if rect_IsEmpty (mRect fi)
           then band_loop aBandInfoType Margin blockStart rest st
           else band_loop aBandInfoType Margin blockStart rest
                  (band_step aBandInfoType Margin blockStart fi st))
   \<and> (\<not> mEmpty (PolygonShapeInfo_ctor vs) \<longrightarrow>
        poly_mBStart (PolygonShapeInfo_ctor vs) = min nscoord_MAX (Min (pt_y ` set vs)) \<and>
        poly_mBEnd (PolygonShapeInfo_ctor vs) = max nscoord_MIN (Max (pt_y ` set vs)) \<and>
        ((\<forall>v \<in> set vs. nscoord_MIN \<le> pt_y v \<and> pt_y v \<le> nscoord_MAX) \<longrightarrow>
           poly_mBStart (PolygonShapeInfo_ctor vs) = Min (pt_y ` set vs) \<and>
           poly_mBEnd (PolygonShapeInfo_ctor vs) = Max (pt_y ` set vs)))"
proof (intro conjI)
  show "length vs < 3 \<longrightarrow> mEmpty (PolygonShapeInfo_ctor vs)"
    by (simp add: PolygonShapeInfo_ctor_def Let_def)
next
  show "(\<forall>i. 2 \<le> i \<and> i < length vs \<longrightarrow> determinant_in_range (vs ! 0) (vs ! 1) (vs ! i)) \<longrightarrow>
        (mEmpty (PolygonShapeInfo_ctor vs) \<longleftrightarrow>
           length vs < 3 \<or>
           (\<forall>i. 2 \<le> i \<and> i < length vs \<longrightarrow>
              (pt_x (vs ! i) - pt_x (vs ! 0)) * (pt_y (vs ! 1) - pt_y (vs ! 0))
              - (pt_y (vs ! i) - pt_y (vs ! 0)) * (pt_x (vs ! 1) - pt_x (vs ! 0)) = 0))"
  proof
    assume r: "\<forall>i. 2 \<le> i \<and> i < length vs \<longrightarrow> determinant_in_range (vs ! 0) (vs ! 1) (vs ! i)"
    have "(\<forall>i. 2 \<le> i \<and> i < length vs \<longrightarrow>
             Determinant (point_minus (vs ! i) (vs ! 0)) (point_minus (vs ! 1) (vs ! 0)) = 0)
          \<longleftrightarrow> (\<forall>i. 2 \<le> i \<and> i < length vs \<longrightarrow>
              (pt_x (vs ! i) - pt_x (vs ! 0)) * (pt_y (vs ! 1) - pt_y (vs ! 0))
              - (pt_y (vs ! i) - pt_y (vs ! 0)) * (pt_x (vs ! 1) - pt_x (vs ! 0)) = 0)"
      using r Determinant_exact by metis
    then show "mEmpty (PolygonShapeInfo_ctor vs) \<longleftrightarrow>
           length vs < 3 \<or>
           (\<forall>i. 2 \<le> i \<and> i < length vs \<longrightarrow>
              (pt_x (vs ! i) - pt_x (vs ! 0)) * (pt_y (vs ! 1) - pt_y (vs ! 0))
              - (pt_y (vs ! i) - pt_y (vs ! 0)) * (pt_x (vs ! 1) - pt_x (vs ! 0)) = 0)"
      using mEmpty_ctor_iff [of vs] by simp
  qed
next
  show "mShapeInfo fi = Some (PolygonShape p) \<and> mEmpty p \<longrightarrow>
        band_loop aBandInfoType ShapeOutside blockStart (fi # rest) st =
          (if mLeftBEnd fi \<le> blockStart \<and> mRightBEnd fi \<le> blockStart then st
           else band_loop aBandInfoType ShapeOutside blockStart rest st)"
    by (simp add: FloatInfo_IsEmpty_def)
next
  show "band_loop aBandInfoType Margin blockStart (fi # rest) st =
          (if mLeftBEnd fi \<le> blockStart \<and> mRightBEnd fi \<le> blockStart then st
           else if rect_IsEmpty (mRect fi)
           then band_loop aBandInfoType Margin blockStart rest st
           else band_loop aBandInfoType Margin blockStart rest
                  (band_step aBandInfoType Margin blockStart fi st))"
    by (simp add: FloatInfo_IsEmpty_def fi_IsEmpty_def)
next
  show "\<not> mEmpty (PolygonShapeInfo_ctor vs) \<longrightarrow>
        poly_mBStart (PolygonShapeInfo_ctor vs) = min nscoord_MAX (Min (pt_y ` set vs)) \<and>
        poly_mBEnd (PolygonShapeInfo_ctor vs) = max nscoord_MIN (Max (pt_y ` set vs)) \<and>
        ((\<forall>v \<in> set vs. nscoord_MIN \<le> pt_y v \<and> pt_y v \<le> nscoord_MAX) \<longrightarrow>
           poly_mBStart (PolygonShapeInfo_ctor vs) = Min (pt_y ` set vs) \<and>
           poly_mBEnd (PolygonShapeInfo_ctor vs) = Max (pt_y ` set vs))"
    using polygon_extent [of vs] polygon_extent_in_range [of vs] by blast
qed

theorem polygon_empty_and_extent_witness:
  "list_all (determinant_in_range (ex_triangle ! 0) (ex_triangle ! 1)) (drop 2 ex_triangle)
   \<and> \<not> mEmpty (PolygonShapeInfo_ctor ex_triangle)
   \<and> list_all (\<lambda>v. nscoord_MIN \<le> pt_y v \<and> pt_y v \<le> nscoord_MAX) ex_triangle
   \<and> poly_mBStart (PolygonShapeInfo_ctor ex_triangle) = 0
   \<and> poly_mBEnd (PolygonShapeInfo_ctor ex_triangle) = 200
   \<and> list_all (determinant_in_range (ex_collinear ! 0) (ex_collinear ! 1)) (drop 2 ex_collinear)
   \<and> mEmpty (PolygonShapeInfo_ctor ex_collinear)
   \<and> mEmpty (PolygonShapeInfo_ctor (take 2 ex_triangle))
   \<and> mShapeInfo ex_empty_polygon_float = Some (PolygonShape (PolygonShapeInfo_ctor ex_collinear))
   \<and> band_loop WidthWithinHeight ShapeOutside 10 [ex_empty_polygon_float] (0, 1000, 20, False)
        = (0, 1000, 20, False)
   \<and> band_loop WidthWithinHeight Margin 10 [ex_empty_polygon_float] (0, 1000, 20, False)
        = (200, 1000, 20, True)"
proof -
  have t: "\<forall>i. 2 \<le> i \<and> i < length ex_triangle \<longrightarrow>
             determinant_in_range (ex_triangle ! 0) (ex_triangle ! 1) (ex_triangle ! i)"
    unfolding set_drop2_conv [of ex_triangle
        "determinant_in_range (ex_triangle ! 0) (ex_triangle ! 1)", symmetric]
    by (simp add: ex_triangle_def determinant_in_range_def fits32_def)
  have c: "\<forall>i. 2 \<le> i \<and> i < length ex_collinear \<longrightarrow>
             determinant_in_range (ex_collinear ! 0) (ex_collinear ! 1) (ex_collinear ! i)"
    unfolding set_drop2_conv [of ex_collinear
        "determinant_in_range (ex_collinear ! 0) (ex_collinear ! 1)", symmetric]
    by (simp add: ex_collinear_def determinant_in_range_def fits32_def)
  have nt: "\<not> (length ex_triangle < 3 \<or>
           (\<forall>i. 2 \<le> i \<and> i < length ex_triangle \<longrightarrow>
              (pt_x (ex_triangle ! i) - pt_x (ex_triangle ! 0))
                * (pt_y (ex_triangle ! 1) - pt_y (ex_triangle ! 0))
              - (pt_y (ex_triangle ! i) - pt_y (ex_triangle ! 0))
                * (pt_x (ex_triangle ! 1) - pt_x (ex_triangle ! 0)) = 0))"
    unfolding set_drop2_conv [of ex_triangle
        "\<lambda>p. (pt_x p - pt_x (ex_triangle ! 0)) * (pt_y (ex_triangle ! 1) - pt_y (ex_triangle ! 0))
              - (pt_y p - pt_y (ex_triangle ! 0)) * (pt_x (ex_triangle ! 1) - pt_x (ex_triangle ! 0))
              = 0", symmetric]
    by (simp add: ex_triangle_def)
  have yc: "length ex_collinear < 3 \<or>
           (\<forall>i. 2 \<le> i \<and> i < length ex_collinear \<longrightarrow>
              (pt_x (ex_collinear ! i) - pt_x (ex_collinear ! 0))
                * (pt_y (ex_collinear ! 1) - pt_y (ex_collinear ! 0))
              - (pt_y (ex_collinear ! i) - pt_y (ex_collinear ! 0))
                * (pt_x (ex_collinear ! 1) - pt_x (ex_collinear ! 0)) = 0)"
    unfolding set_drop2_conv [of ex_collinear
        "\<lambda>p. (pt_x p - pt_x (ex_collinear ! 0)) * (pt_y (ex_collinear ! 1) - pt_y (ex_collinear ! 0))
              - (pt_y p - pt_y (ex_collinear ! 0)) * (pt_x (ex_collinear ! 1) - pt_x (ex_collinear ! 0))
              = 0", symmetric]
    by (simp add: ex_collinear_def)
  have r: "\<forall>v \<in> set ex_triangle. nscoord_MIN \<le> pt_y v \<and> pt_y v \<le> nscoord_MAX"
    by (simp add: ex_triangle_def nscoord_MIN_def nscoord_MAX_def)
  have e1: "\<not> mEmpty (PolygonShapeInfo_ctor ex_triangle)"
    using polygon_empty_and_extent [where vs = ex_triangle] t nt by blast
  have e2: "mEmpty (PolygonShapeInfo_ctor ex_collinear)"
    using polygon_empty_and_extent [where vs = ex_collinear] c yc by blast
  have e3: "mEmpty (PolygonShapeInfo_ctor (take 2 ex_triangle))"
    using polygon_empty_and_extent [where vs = "take 2 ex_triangle"] by (simp add: ex_triangle_def)
  have x: "poly_mBStart (PolygonShapeInfo_ctor ex_triangle) = Min (pt_y ` set ex_triangle)
         \<and> poly_mBEnd (PolygonShapeInfo_ctor ex_triangle) = Max (pt_y ` set ex_triangle)"
    using polygon_empty_and_extent [where vs = ex_triangle] e1 r by blast
  have s: "band_loop WidthWithinHeight ShapeOutside 10 [ex_empty_polygon_float] (0, 1000, 20, False)
             = (0, 1000, 20, False)"
    using polygon_empty_and_extent [where fi = ex_empty_polygon_float
      and p = "PolygonShapeInfo_ctor ex_collinear" and aBandInfoType = WidthWithinHeight
      and blockStart = 10 and rest = "[]" and st = "(0, 1000, 20, False)"] e2
    by (simp add: ex_empty_polygon_float_def)
  have m: "band_loop WidthWithinHeight Margin 10 [ex_empty_polygon_float] (0, 1000, 20, False)
             = (200, 1000, 20, True)"
    using polygon_empty_and_extent [where fi = ex_empty_polygon_float
      and aBandInfoType = WidthWithinHeight
      and blockStart = 10 and rest = "[]" and st = "(0, 1000, 20, False)"]
    by (simp add: ex_empty_polygon_float_def rect_IsEmpty_def band_step_def
          FloatInfo_BStart_def FloatInfo_BEnd_def FloatInfo_LineRight_def fi_BStart_def
          fi_BEnd_def fi_LineRight_def YMost_def XMost_def ex_left_frame_def Let_def
          nscoord_MIN_def nscoord_MAX_def)
  show ?thesis
    using e1 e2 e3 x s m
    by (simp add: ex_triangle_def ex_collinear_def ex_empty_polygon_float_def
          determinant_in_range_def fits32_def nscoord_MIN_def nscoord_MAX_def)
qed

text \<open>
  A \<open>Margin\<close> query does not pass over a float whose polygon is empty: the float of
  \<open>ex_collinear_float\<close> narrows the band. And the triangle with legs of 65536 app units,
  whose determinant is \<open>- 2\<^sup>3\<^sup>2\<close>, is reported empty, because the 32-bit product wraps
  around to zero.
\<close>

theorem polygon_empty_counterexample:
  "mEmpty (PolygonShapeInfo_ctor ex_collinear)
   \<and> GetFlowArea ex_collinear_float ex_wm 0 10 BandFromPoint Margin (ex_rect 0 0 1000 0) None
       ex_container = Some (mk_nsFlowAreaRect 200 0 800 10 True)
   \<and> GetFlowArea ex_collinear_float ex_wm 0 10 BandFromPoint ShapeOutside (ex_rect 0 0 1000 0) None
       ex_container = Some (mk_nsFlowAreaRect 0 0 1000 10 False)
   \<and> length ex_large_triangle = 3
   \<and> (pt_x (ex_large_triangle ! 2) - pt_x (ex_large_triangle ! 0))
        * (pt_y (ex_large_triangle ! 1) - pt_y (ex_large_triangle ! 0))
      - (pt_y (ex_large_triangle ! 2) - pt_y (ex_large_triangle ! 0))
        * (pt_x (ex_large_triangle ! 1) - pt_x (ex_large_triangle ! 0)) = - 4294967296
   \<and> mEmpty (PolygonShapeInfo_ctor ex_large_triangle)"
  by (simp add: ex_collinear_float_def ex_collinear_def ex_large_triangle_def
        flow_eval add_eval poly_eval Polygon_Translate_def point_MoveBy_def)

subsection \<open>The intercept helpers\<close>

text \<open>
  The guards of the callers: every call of the ellipse intercept has a positive block
  radius and an ordinate between zero and that radius, and every call of the polygon
  intercept has a segment whose block span strictly contains the ordinate, so its
  divisor is not zero for vertices that fit in 32 bits.
\<close>

lemma ellipse_intercept_calls_guarded:
  assumes "(aY, aRadiusX, aRadiusY) \<in>
          set (ellipse_intercept_calls aShapeBoxBStart aShapeBoxBEnd
                 aBStartCornerRadiusL aBStartCornerRadiusB aBEndCornerRadiusL aBEndCornerRadiusB
                 aBandBStart aBandBEnd)"
  shows "0 < aRadiusY \<and> 0 \<le> aY \<and> aY \<le> aRadiusY"
  using assms by (auto simp: ellipse_intercept_calls_def split: if_splits)

lemma polygon_intercept_calls_guarded:
  assumes "i < length vs" "(aY, aP1, aP2) \<in> set (polygon_intercept_calls aBStart aBEnd vs i)"
  shows "pt_y aP1 < aY \<and> aY < pt_y aP2"
  using assms by (auto simp: polygon_intercept_calls_def Let_def split: if_splits)

lemma polygon_divisor_nonzero:
  assumes "fits32 (pt_y aP1)" "fits32 (pt_y aP2)" "pt_y aP1 < pt_y aP2"
  shows "wrap32 (pt_y aP2 - pt_y aP1) \<noteq> 0"
proof
  assume z: "wrap32 (pt_y aP2 - pt_y aP1) = 0"
  define d where "d = pt_y aP2 - pt_y aP1"
  have d: "0 < d" "d < 4294967296"
    using assms by (simp_all add: d_def fits32_def)
  have m: "(d + 2147483648) mod 4294967296 = 2147483648"
    using z by (simp add: wrap32_def d_def)
  show False
  proof (cases "d < 2147483648")
    case True
    then have "(d + 2147483648) mod 4294967296 = d + 2147483648"
      using d by simp
    then show False using m d by simp
  next
    case False
    have "(d + 2147483648) mod 4294967296 = (d + 2147483648 - 4294967296) mod 4294967296"
      by (simp only: minus_mod_self2)
    also have "\<dots> = d - 2147483648"
      using False d by simp
    finally show False using m d by simp
  qed
qed

text \<open>
  The numerator of the polygon intercept wraps around as well: on the segment from
  \<open>(0, 0)\<close> to \<open>(60000, 100000)\<close> the abscissa at the ordinate 50000 is 30000, and the
  function returns \<open>- 12949\<close>; at a tenth of the size it returns the abscissa.
\<close>

lemma polygon_intercept_wraps:
  "polygon_XInterceptAtY 50000 \<lparr>pt_x = 0, pt_y = 0\<rparr> \<lparr>pt_x = 60000, pt_y = 100000\<rparr> = - 12949
   \<and> polygon_XInterceptAtY 5000 \<lparr>pt_x = 0, pt_y = 0\<rparr> \<lparr>pt_x = 6000, pt_y = 10000\<rparr> = 3000"
  by (simp add: polygon_XInterceptAtY_def wrap32_def tdiv_def)

text \<open>
  Where the square of the block radius fits in 32 bits, up to a radius of 46340 app
  units, the divisor of the ellipse intercept is that square and is positive.
\<close>

lemma ellipse_divisor_nonzero:
  assumes "0 < aRadiusY" "aRadiusY \<le> 46340"
  shows "wrap32 (aRadiusY * aRadiusY) = aRadiusY * aRadiusY \<and> 0 < aRadiusY * aRadiusY"
proof -
  have "aRadiusY * aRadiusY \<le> 46340 * 46340"
    using assms by (intro mult_mono) simp_all
  moreover have p: "0 < aRadiusY * aRadiusY" using assms(1) by simp
  ultimately have "fits32 (aRadiusY * aRadiusY)" by (simp add: fits32_def)
  then show ?thesis using p by (simp add: wrap32_id)
qed

text \<open>
  So the versions that check the assertions and the divisor return the value of the
  unchecked ones for corner radii up to 46340 and for polygons whose vertices fit in
  32 bits.
\<close>

lemma ellipse_XInterceptAtY_checked_ok:
  assumes "0 < aRadiusY" "aRadiusY \<le> 46340"
  shows "ellipse_XInterceptAtY_checked aY aRadiusX aRadiusY =
           Inr (ellipse_XInterceptAtY aY aRadiusX aRadiusY)"
  using assms ellipse_divisor_nonzero [OF assms]
  by (simp add: ellipse_XInterceptAtY_checked_def)

lemma ComputeEllipseLineInterceptDiff_checked_ok:
  assumes "aBStartCornerRadiusB \<le> 46340" "aBEndCornerRadiusB \<le> 46340"
  shows "ComputeEllipseLineInterceptDiff_checked aShapeBoxBStart aShapeBoxBEnd
       aBStartCornerRadiusL aBStartCornerRadiusB aBEndCornerRadiusL aBEndCornerRadiusB
       aBandBStart aBandBEnd =
     Inr (ComputeEllipseLineInterceptDiff aShapeBoxBStart aShapeBoxBEnd
            aBStartCornerRadiusL aBStartCornerRadiusB aBEndCornerRadiusL aBEndCornerRadiusB
            aBandBStart aBandBEnd)"
  using assms
  by (simp add: ComputeEllipseLineInterceptDiff_checked_def ComputeEllipseLineInterceptDiff_def
        ellipse_XInterceptAtY_checked_ok Let_def)

lemma polygon_XInterceptAtY_checked_ok:
  assumes "fits32 (pt_y aP1)" "fits32 (pt_y aP2)" "pt_y aP1 < aY" "aY < pt_y aP2"
  shows "polygon_XInterceptAtY_checked aY aP1 aP2 = Inr (polygon_XInterceptAtY aY aP1 aP2)"
proof -
  have "pt_y aP1 < pt_y aP2" using assms(3,4) by simp
  then have "wrap32 (pt_y aP2 - pt_y aP1) \<noteq> 0"
    using assms(1,2) by (intro polygon_divisor_nonzero)
  then show ?thesis using assms(3,4) by (simp add: polygon_XInterceptAtY_checked_def)
qed

lemma line_intercept_step_checked_ok:
  assumes "\<forall>v \<in> set vs. fits32 (pt_y v)" "i < length vs"
  shows "line_intercept_step_checked aBStart aBEnd aCompareOp vs i (Inr acc) =
     Inr (line_intercept_step aBStart aBEnd aCompareOp vs i acc)"
proof -
  have "0 < length vs" by (rule le_less_trans [OF le0 assms(2)])
  then have "(i + 1) mod length vs < length vs" by (rule mod_less_divisor)
  then have "vs ! i \<in> set vs" "vs ! ((i + 1) mod length vs) \<in> set vs"
    using assms(2) by (simp_all only: nth_mem)
  then have "fits32 (pt_y (vs ! i))" "fits32 (pt_y (vs ! ((i + 1) mod length vs)))"
    using assms(1) by blast+
  then show ?thesis
    by (simp add: line_intercept_step_checked_def line_intercept_step_def Let_def
          polygon_XInterceptAtY_checked_ok)
qed

lemma fold_line_intercept_step_checked_ok:
  assumes "\<forall>v \<in> set vs. fits32 (pt_y v)" "\<forall>i \<in> set is. i < length vs"
  shows "fold (line_intercept_step_checked aBStart aBEnd aCompareOp vs) is (Inr acc) =
     Inr (fold (line_intercept_step aBStart aBEnd aCompareOp vs) is acc)"
  using assms(2)
  by (induction "is" arbitrary: acc) (simp_all add: line_intercept_step_checked_ok [OF assms(1)])

lemma ComputeLineIntercept_checked_ok:
  assumes "\<forall>v \<in> set vs. fits32 (pt_y v)"
  shows "ComputeLineIntercept_checked vs aBStart aBEnd aCompareOp aLineInterceptInitialValue =
     Inr (ComputeLineIntercept vs aBStart aBEnd aCompareOp aLineInterceptInitialValue)"
  using assms
  by (simp add: ComputeLineIntercept_checked_def ComputeLineIntercept_def
        fold_line_intercept_step_checked_ok)


text \<open>
  Claim C10 fails for the ellipse intercept. The guard \<^verbatim>\<open>aRadiusY > 0\<close> does not keep
  the divisor \<^verbatim>\<open>double(aRadiusY * aRadiusY)\<close> from zero, because the product is formed
  in 32 bits: for a block radius of 65536 app units it is zero. On a shape box from 0
  to 131072 with corner radii 100 and 65536, the band \<open>[0, 0]\<close> makes
  \<^verbatim>\<open>ComputeEllipseLineInterceptDiff\<close> call \<^verbatim>\<open>XInterceptAtY(65536, 100, 65536)\<close>: the guard
  holds, the divisor is zero, and the difference returned is \<open>- 2147483548\<close> where the
  ellipse gives 100.
\<close>

theorem ellipse_divisor_zero:
  "ellipse_intercept_calls 0 131072 100 65536 100 65536 0 0 = [(65536, 100, 65536)]
   \<and> (0::int) < 65536
   \<and> wrap32 (65536 * 65536) = 0
   \<and> ellipse_XInterceptAtY_checked 65536 100 65536 = Inl ZeroDivisor
   \<and> ComputeEllipseLineInterceptDiff_checked 0 131072 100 65536 100 65536 0 0 = Inl ZeroDivisor
   \<and> ellipse_XInterceptAtY 65536 100 65536 = - 2147483648
   \<and> ComputeEllipseLineInterceptDiff 0 131072 100 65536 100 65536 0 0 = - 2147483548"
  by (simp add: ellipse_intercept_calls_def ellipse_XInterceptAtY_checked_def
        ComputeEllipseLineInterceptDiff_checked_def ComputeEllipseLineInterceptDiff_def
        ellipse_XInterceptAtY_def double_div_def wrap32_def)

subsection \<open>\<^verbatim>\<open>GetFlowArea\<close>: the result rectangle\<close>

text \<open>
  A call returns a rectangle unless it is handed a saved state whose float count
  exceeds the registry's length.
\<close>

lemma GetFlowArea_returns:
  "floatCount m aState \<le> length (mFloats m) \<Longrightarrow>
   \<exists>r. GetFlowArea m aWM aBCoord aBSize aBandInfoType aShapeType aContentArea aState
         aContainerSize = Some r"
  by (simp add: GetFlowArea_def)

lemma GetFlowArea_returns_without_state:
  "\<exists>r. GetFlowArea m aWM aBCoord aBSize aBandInfoType aShapeType aContentArea None
         aContainerSize = Some r"
  by (simp add: GetFlowArea_def floatCount_def)

text \<open>
  Claim C8, as amended. With \<open>L\<close> and \<open>R\<close> the band edges of the call in the manager's
  line-left frame, the returned inline start is \<open>L - mLineLeft\<close> under LTR and
  \<open>mLineLeft - R\<close> plus the inline size of the container (\<^verbatim>\<open>aContainerSize\<close> read in the
  writing mode) under RTL; the returned inline size is \<open>R - L\<close>.
\<close>

theorem inline_start_conversion:
  assumes "GetFlowArea m aWM aBCoord aBSize aBandInfoType aShapeType aContentArea aState
             aContainerSize = Some r"
    and "band_edges (mLineLeft m) (mBlockStart m) (floats_in_scope m aState) aWM aBCoord aBSize
           aBandInfoType aShapeType aContentArea aContainerSize = (L, R)"
  shows "IStart (fa_mRect r) =
           (if IsBidiLTR aWM then L - mLineLeft m
            else mLineLeft m - R + LogicalSize_ISize aWM aContainerSize)
       \<and> ISize (fa_mRect r) = R - L"
  using assms
  by (auto simp: GetFlowArea_def flow_area_of_def band_edges_def Let_def mk_nsFlowAreaRect_def
        LineLeft_def LineRight_def IEnd_def split: if_splits prod.splits)

theorem inline_start_conversion_witness:
  "GetFlowArea ex_rtl_one_left ex_wm_rtl 0 50 WidthWithinHeight Margin (ex_rect 100 0 800 0)
     None ex_container = Some (mk_nsFlowAreaRect 100 0 700 50 True)
   \<and> band_edges (mLineLeft ex_rtl_one_left) (mBlockStart ex_rtl_one_left)
        (floats_in_scope ex_rtl_one_left None) ex_wm_rtl 0 50 WidthWithinHeight Margin
        (ex_rect 100 0 800 0) ex_container = (200, 900)
   \<and> IStart (fa_mRect (mk_nsFlowAreaRect 100 0 700 50 True))
        = mLineLeft ex_rtl_one_left - 900 + LogicalSize_ISize ex_wm_rtl ex_container
   \<and> ISize (fa_mRect (mk_nsFlowAreaRect 100 0 700 50 True)) = 900 - 200"
proof -
  have g: "GetFlowArea ex_rtl_one_left ex_wm_rtl 0 50 WidthWithinHeight Margin (ex_rect 100 0 800 0)
     None ex_container = Some (mk_nsFlowAreaRect 100 0 700 50 True)"
    by (simp add: ex_rtl_one_left_def ex_wm_rtl_def flow_eval add_eval)
  have e: "band_edges (mLineLeft ex_rtl_one_left) (mBlockStart ex_rtl_one_left)
        (floats_in_scope ex_rtl_one_left None) ex_wm_rtl 0 50 WidthWithinHeight Margin
        (ex_rect 100 0 800 0) ex_container = (200, 900)"
    by (simp add: ex_rtl_one_left_def ex_wm_rtl_def flow_eval add_eval)
  show ?thesis using inline_start_conversion [OF g e] g e
    by (simp add: ex_wm_rtl_def)
qed

text \<open>
  The RTL formula with the content area's inline size in place of the container's is
  not what the call returns: a content area of inline size 800 that starts at 100 in
  a container of inline size 1000.
\<close>

theorem inline_start_content_size_counterexample:
  "GetFlowArea ex_rtl_one_left ex_wm_rtl 0 50 WidthWithinHeight Margin (ex_rect 100 0 800 0)
     None ex_container = Some (mk_nsFlowAreaRect 100 0 700 50 True)
   \<and> band_edges (mLineLeft ex_rtl_one_left) (mBlockStart ex_rtl_one_left)
        (floats_in_scope ex_rtl_one_left None) ex_wm_rtl 0 50 WidthWithinHeight Margin
        (ex_rect 100 0 800 0) ex_container = (200, 900)
   \<and> spec_inlineStart ex_wm_rtl (mLineLeft ex_rtl_one_left) 200 900 (ex_rect 100 0 800 0) = - 100
   \<and> IStart (fa_mRect (mk_nsFlowAreaRect 100 0 700 50 True))
        \<noteq> spec_inlineStart ex_wm_rtl (mLineLeft ex_rtl_one_left) 200 900 (ex_rect 100 0 800 0)"
  by (simp add: ex_rtl_one_left_def ex_wm_rtl_def flow_eval add_eval spec_inlineStart_def)

lemma band_step_bounds:
  assumes "band_step bt st bs fi (L0, R0, E0, h0) = (L, R, E, h)"
  shows "L0 \<le> L" and "R \<le> R0"
    and "bs \<le> E0 \<or> E0 = nscoord_MAX \<Longrightarrow> bs \<le> E \<or> E = nscoord_MAX"
    and "\<not> h \<Longrightarrow> \<not> h0 \<and> L = L0 \<and> R = R0"
  using assms
  by (auto simp: band_step_def Let_def split: if_splits)

lemma band_loop_bounds:
  assumes "band_loop bt st bs fs (L0, R0, E0, h0) = (L, R, E, h)"
  shows "L0 \<le> L \<and> R \<le> R0
       \<and> (bs \<le> E0 \<or> E0 = nscoord_MAX \<longrightarrow> bs \<le> E \<or> E = nscoord_MAX)
       \<and> (\<not> h \<longrightarrow> \<not> h0 \<and> L = L0 \<and> R = R0)"
  using assms
proof (induction fs arbitrary: L0 R0 E0 h0)
  case Nil
  then show ?case by simp
next
  case (Cons fi fs)
  show ?case
  proof (cases "mLeftBEnd fi \<le> bs \<and> mRightBEnd fi \<le> bs")
    case True
    then show ?thesis using Cons.prems by simp
  next
    case brk: False
    show ?thesis
    proof (cases "FloatInfo_IsEmpty fi st")
      case True
      then have "band_loop bt st bs fs (L0, R0, E0, h0) = (L, R, E, h)"
        using Cons.prems brk by simp
      then show ?thesis by (rule Cons.IH)
    next
      case False
      obtain L1 R1 E1 h1 where s: "band_step bt st bs fi (L0, R0, E0, h0) = (L1, R1, E1, h1)"
        by (metis prod_cases4)
      then have "band_loop bt st bs fs (L1, R1, E1, h1) = (L, R, E, h)"
        using Cons.prems brk False by simp
      then have ih: "L1 \<le> L \<and> R \<le> R1
         \<and> (bs \<le> E1 \<or> E1 = nscoord_MAX \<longrightarrow> bs \<le> E \<or> E = nscoord_MAX)
         \<and> (\<not> h \<longrightarrow> \<not> h1 \<and> L = L1 \<and> R = R1)"
        by (rule Cons.IH)
      show ?thesis
        using ih band_step_bounds(1,2) [OF s] band_step_bounds(3) [OF s] band_step_bounds(4) [OF s]
        by auto
    qed
  qed
qed


lemma band_init_parts:
  "band_init org bs aWM aBSize ca cs = (L0, R0, E0, h0) \<Longrightarrow>
     L0 = org + LineLeft ca aWM cs \<and>
     R0 = (if org + LineRight ca aWM cs < L0 then L0 else org + LineRight ca aWM cs) \<and>
     (0 \<le> aBSize \<longrightarrow> bs \<le> E0 \<or> E0 = nscoord_MAX) \<and> \<not> h0"
  by (auto simp: band_init_def Let_def split: if_splits)

text \<open>
  Claim C6, as amended. For a call with non-negative band size and non-negative
  content-area inline size, the returned block size is non-negative, the returned
  inline start is not before the content area's inline start, and the returned inline
  end (start plus size) is not after the content area's inline end. When the result
  reports no floats, the inline start and size are the content area's own, so the size
  is non-negative and the start lies within the content area.
\<close>

theorem flow_area_dimensions:
  assumes g: "GetFlowArea m aWM aBCoord aBSize aBandInfoType aShapeType aContentArea aState
             aContainerSize = Some r"
    and size: "0 \<le> aBSize" and isize: "0 \<le> ISize aContentArea"
  shows "0 \<le> BSize (fa_mRect r)
       \<and> IStart aContentArea \<le> IStart (fa_mRect r)
       \<and> IStart (fa_mRect r) + ISize (fa_mRect r) \<le> IEnd aContentArea
       \<and> (\<not> mHasFloats r \<longrightarrow>
            IStart (fa_mRect r) = IStart aContentArea \<and> ISize (fa_mRect r) = ISize aContentArea)"
proof -
  define fs where "fs = floats_in_scope m aState"
  define bs where "bs = band_blockStart (mBlockStart m) aBCoord"
  have r: "r = flow_area_of (mLineLeft m) (mBlockStart m) fs aWM aBCoord aBSize aBandInfoType
                 aShapeType aContentArea aContainerSize"
    using g by (simp add: GetFlowArea_def fs_def split: if_splits)
  show ?thesis
  proof (cases "below_last_float fs bs")
    case True
    then show ?thesis using r size isize
      by (simp add: flow_area_of_def bs_def mk_nsFlowAreaRect_def IEnd_def)
  next
    case False
    obtain L0 R0 E0 h0 where i: "band_init (mLineLeft m) bs aWM aBSize aContentArea aContainerSize
                                   = (L0, R0, E0, h0)"
      by (metis prod_cases4)
    obtain L R E h where w: "band_loop aBandInfoType aShapeType bs (rev fs) (L0, R0, E0, h0)
                               = (L, R, E, h)"
      by (metis prod_cases4)
    have walk: "band_walk (mLineLeft m) (mBlockStart m) fs aWM aBCoord aBSize aBandInfoType
                  aShapeType aContentArea aContainerSize = (L, R, E, h)"
      using i w by (simp add: band_walk_def bs_def)
    have init: "L0 = mLineLeft m + LineLeft aContentArea aWM aContainerSize"
      "R0 = mLineLeft m + LineRight aContentArea aWM aContainerSize"
      "bs \<le> E0 \<or> E0 = nscoord_MAX" "\<not> h0"
      using band_init_parts [OF i] size isize
      by (auto simp: LineLeft_def LineRight_def IEnd_def)
    have b: "L0 \<le> L" "R \<le> R0" "bs \<le> E \<or> E = nscoord_MAX" "\<not> h \<longrightarrow> L = L0 \<and> R = R0"
      using band_loop_bounds [OF w] init(3) by auto
    have res: "r = mk_nsFlowAreaRect
                 (if IsBidiLTR aWM then L - mLineLeft m
                  else mLineLeft m - R + LogicalSize_ISize aWM aContainerSize)
                 (bs - mBlockStart m) (R - L)
                 (if E = nscoord_MAX then nscoord_MAX else E - bs) h"
      using r False walk by (simp add: flow_area_of_def bs_def Let_def)
    have "0 \<le> BSize (fa_mRect r)"
      using res b(3) by (auto simp: mk_nsFlowAreaRect_def nscoord_MAX_def)
    moreover have "IStart aContentArea \<le> IStart (fa_mRect r)"
      using res b(1,2) init(1,2)
      by (auto simp: mk_nsFlowAreaRect_def LineLeft_def LineRight_def IEnd_def)
    moreover have "IStart (fa_mRect r) + ISize (fa_mRect r) \<le> IEnd aContentArea"
      using res b(1,2) init(1,2)
      by (auto simp: mk_nsFlowAreaRect_def LineLeft_def LineRight_def IEnd_def)
    moreover have "\<not> mHasFloats r \<longrightarrow>
            IStart (fa_mRect r) = IStart aContentArea \<and> ISize (fa_mRect r) = ISize aContentArea"
      using res b(4) init(1,2)
      by (auto simp: mk_nsFlowAreaRect_def LineLeft_def LineRight_def IEnd_def)
    ultimately show ?thesis by blast
  qed
qed

theorem flow_area_dimensions_witness:
  "GetFlowArea ex_one_left ex_wm 20 30 WidthWithinHeight Margin (ex_rect 0 0 1000 0) None
     ex_container = Some (mk_nsFlowAreaRect 200 20 800 30 True)
   \<and> (0::int) \<le> 30 \<and> 0 \<le> ISize (ex_rect 0 0 1000 0)
   \<and> 0 \<le> BSize (fa_mRect (mk_nsFlowAreaRect 200 20 800 30 True))
   \<and> IStart (ex_rect 0 0 1000 0) \<le> IStart (fa_mRect (mk_nsFlowAreaRect 200 20 800 30 True))
   \<and> IStart (fa_mRect (mk_nsFlowAreaRect 200 20 800 30 True))
        + ISize (fa_mRect (mk_nsFlowAreaRect 200 20 800 30 True)) \<le> IEnd (ex_rect 0 0 1000 0)
   \<and> GetFlowArea ex_one_left ex_wm 150 50 BandFromPoint Margin (ex_rect 0 0 1000 0) None
       ex_container = Some (mk_nsFlowAreaRect 0 150 1000 50 False)
   \<and> \<not> mHasFloats (mk_nsFlowAreaRect 0 150 1000 50 False)
   \<and> IStart (fa_mRect (mk_nsFlowAreaRect 0 150 1000 50 False)) = IStart (ex_rect 0 0 1000 0)
   \<and> ISize (fa_mRect (mk_nsFlowAreaRect 0 150 1000 50 False)) = ISize (ex_rect 0 0 1000 0)"
proof -
  have g: "GetFlowArea ex_one_left ex_wm 20 30 WidthWithinHeight Margin (ex_rect 0 0 1000 0) None
     ex_container = Some (mk_nsFlowAreaRect 200 20 800 30 True)"
    by (simp add: ex_one_left_def flow_eval add_eval)
  have g2: "GetFlowArea ex_one_left ex_wm 150 50 BandFromPoint Margin (ex_rect 0 0 1000 0) None
       ex_container = Some (mk_nsFlowAreaRect 0 150 1000 50 False)"
    by (simp add: ex_one_left_def flow_eval add_eval)
  have s: "(0::int) \<le> 30" and s2: "(0::int) \<le> 50" and c: "0 \<le> ISize (ex_rect 0 0 1000 0)"
    by (simp_all add: ex_rect_def)
  have n: "\<not> mHasFloats (mk_nsFlowAreaRect 0 150 1000 50 False)"
    by (simp add: mk_nsFlowAreaRect_def)
  show ?thesis
    using flow_area_dimensions [OF g s c] flow_area_dimensions [OF g2 s2 c] g g2 s c n by simp
qed

text \<open>
  A left float wider than the content area pushes the line-left edge past the
  line-right edge: the returned inline size is negative and the inline start lies
  beyond the content area.
\<close>

theorem inline_size_negative_counterexample:
  "GetFlowArea ex_wide_left ex_wm 0 50 WidthWithinHeight Margin (ex_rect 0 0 1000 0) None
     ex_container = Some (mk_nsFlowAreaRect 1200 0 (- 200) 50 True)
   \<and> (0::int) \<le> 50 \<and> 0 \<le> ISize (ex_rect 0 0 1000 0)
   \<and> \<not> 0 \<le> ISize (fa_mRect (mk_nsFlowAreaRect 1200 0 (- 200) 50 True))
   \<and> \<not> IStart (fa_mRect (mk_nsFlowAreaRect 1200 0 (- 200) 50 True)) \<le> IEnd (ex_rect 0 0 1000 0)"
  by (simp add: ex_wide_left_def flow_eval add_eval)

subsection \<open>A band against its starting point\<close>

text \<open>
  \<^verbatim>\<open>GetFlowArea\<close> relies on the edge of a float over the band \<open>[B, B + H]\<close> reaching at
  least as far into the line as its edge at the point \<open>B\<close>; the comment before the
  \<^verbatim>\<open>ShapeOutside\<close> branch of the walk states it. This holds for \<open>Margin\<close> queries
  and for shapes without elliptic corners.
\<close>

text \<open>Polygon and image edges over a band against the band's starting point.\<close>

lemma line_intercept_step_max_mono:
  assumes "bs \<le> be" "a \<le> b"
  shows "line_intercept_step bs bs std_max vs i a \<le> line_intercept_step bs be std_max vs i b"
  using assms
  by (auto simp: line_intercept_step_def Let_def std_max_def)

lemma line_intercept_step_min_mono:
  assumes "bs \<le> be" "b \<le> a"
  shows "line_intercept_step bs be std_min vs i b \<le> line_intercept_step bs bs std_min vs i a"
  using assms
  by (auto simp: line_intercept_step_def Let_def std_min_def)

lemma fold_line_intercept_max_mono:
  assumes "bs \<le> be" "a \<le> b"
  shows "fold (line_intercept_step bs bs std_max vs) is a
         \<le> fold (line_intercept_step bs be std_max vs) is b"
  using assms(2)
proof (induction "is" arbitrary: a b)
  case Nil
  then show ?case by simp
next
  case (Cons i "is")
  show ?case
    using Cons.IH [OF line_intercept_step_max_mono [OF assms(1) Cons.prems]] by simp
qed

lemma fold_line_intercept_min_mono:
  assumes "bs \<le> be" "b \<le> a"
  shows "fold (line_intercept_step bs be std_min vs) is b
         \<le> fold (line_intercept_step bs bs std_min vs) is a"
  using assms(2)
proof (induction "is" arbitrary: a b)
  case Nil
  then show ?case by simp
next
  case (Cons i "is")
  show ?case
    using Cons.IH [OF line_intercept_step_min_mono [OF assms(1) Cons.prems]] by simp
qed

lemma scan_max_ge: "a \<le> line_edge_scan be False ivs a"
proof (induction ivs arbitrary: a)
  case Nil
  show ?case by simp
next
  case (Cons iv ivs)
  have "a \<le> max a (XMost iv)" by simp
  also have "\<dots> \<le> line_edge_scan be False ivs (max a (XMost iv))" by (rule Cons.IH)
  finally show ?case by simp
qed

lemma scan_min_le: "line_edge_scan be True ivs a \<le> a"
proof (induction ivs arbitrary: a)
  case Nil
  show ?case by simp
next
  case (Cons iv ivs)
  have "line_edge_scan be True ivs (min a (r_x iv)) \<le> min a (r_x iv)" by (rule Cons.IH)
  also have "\<dots> \<le> a" by simp
  finally show ?case by simp
qed

lemma scan_max_mono:
  assumes "bs \<le> be"
  shows "a \<le> b \<Longrightarrow> line_edge_scan bs False ivs a \<le> line_edge_scan be False ivs b"
proof (induction ivs arbitrary: a b)
  case Nil
  then show ?case by simp
next
  case (Cons iv ivs)
  have m: "max a (XMost iv) \<le> max b (XMost iv)" using Cons.prems by simp
  show ?case
  proof (cases "r_y iv > be")
    case True
    then show ?thesis using assms Cons.prems by simp
  next
    case inband: False
    show ?thesis
    proof (cases "r_y iv > bs")
      case True
      have "a \<le> max b (XMost iv)" using Cons.prems by simp
      also have "\<dots> \<le> line_edge_scan be False ivs (max b (XMost iv))" by (rule scan_max_ge)
      finally show ?thesis using True inband by simp
    next
      case False
      then show ?thesis using inband Cons.IH [OF m] by simp
    qed
  qed
qed

lemma scan_min_mono:
  assumes "bs \<le> be"
  shows "b \<le> a \<Longrightarrow> line_edge_scan be True ivs b \<le> line_edge_scan bs True ivs a"
proof (induction ivs arbitrary: a b)
  case Nil
  then show ?case by simp
next
  case (Cons iv ivs)
  have m: "min b (r_x iv) \<le> min a (r_x iv)" using Cons.prems by simp
  show ?case
  proof (cases "r_y iv > be")
    case True
    then show ?thesis using assms Cons.prems by simp
  next
    case inband: False
    show ?thesis
    proof (cases "r_y iv > bs")
      case True
      have "line_edge_scan be True ivs (min b (r_x iv)) \<le> min b (r_x iv)" by (rule scan_min_le)
      also have "\<dots> \<le> a" using Cons.prems by simp
      finally show ?thesis using True inband by simp
    next
      case False
      then show ?thesis using inband Cons.IH [OF m] by simp
    qed
  qed
qed

lemma shape_LineRight_mono:
  assumes "shape_without_ellipse sh" "bs \<le> be"
  shows "shape_LineRight sh bs bs \<le> shape_LineRight sh bs be"
proof (cases sh)
  case (RoundedBoxShapeInfo box radii)
  then show ?thesis using assms(1) by (cases radii) (simp_all add: RoundedBox_LineRight_def)
next
  case (EllipseShapeInfo c rad)
  then show ?thesis using assms(1) by simp
next
  case (PolygonShape p)
  then show ?thesis
    using fold_line_intercept_max_mono [OF assms(2), of nscoord_MIN nscoord_MIN]
    by (simp add: Polygon_LineRight_def ComputeLineIntercept_def)
next
  case (ImageShape img)
  then show ?thesis
    using scan_max_mono [OF assms(2), of nscoord_MIN nscoord_MIN]
    by (simp add: LineEdge_def)
qed

lemma shape_LineLeft_mono:
  assumes "shape_without_ellipse sh" "bs \<le> be"
  shows "shape_LineLeft sh bs be \<le> shape_LineLeft sh bs bs"
proof (cases sh)
  case (RoundedBoxShapeInfo box radii)
  then show ?thesis using assms(1) by (cases radii) (simp_all add: RoundedBox_LineLeft_def)
next
  case (EllipseShapeInfo c rad)
  then show ?thesis using assms(1) by simp
next
  case (PolygonShape p)
  then show ?thesis
    using fold_line_intercept_min_mono [OF assms(2), of nscoord_MAX nscoord_MAX]
    by (simp add: Polygon_LineLeft_def ComputeLineIntercept_def)
next
  case (ImageShape img)
  then show ?thesis
    using scan_min_mono [OF assms(2), of nscoord_MAX nscoord_MAX]
    by (simp add: LineEdge_def)
qed

lemma FloatInfo_LineRight_mono:
  assumes "float_without_ellipse fi" "bs \<le> be"
  shows "FloatInfo_LineRight fi st bs bs \<le> FloatInfo_LineRight fi st bs be"
proof (cases "st = Margin \<or> mShapeInfo fi = None")
  case True
  then show ?thesis by (auto simp: FloatInfo_LineRight_def)
next
  case False
  then obtain sh where sh: "mShapeInfo fi = Some sh" and so: "st \<noteq> Margin" by auto
  have "shape_without_ellipse sh" using assms(1) sh by (simp add: float_without_ellipse_def)
  then have "shape_LineRight sh bs bs \<le> shape_LineRight sh bs be"
    using assms(2) by (intro shape_LineRight_mono)
  then show ?thesis using sh so by (simp add: FloatInfo_LineRight_def min.coboundedI2)
qed

lemma FloatInfo_LineLeft_mono:
  assumes "float_without_ellipse fi" "bs \<le> be"
  shows "FloatInfo_LineLeft fi st bs be \<le> FloatInfo_LineLeft fi st bs bs"
proof (cases "st = Margin \<or> mShapeInfo fi = None")
  case True
  then show ?thesis by (auto simp: FloatInfo_LineLeft_def)
next
  case False
  then obtain sh where sh: "mShapeInfo fi = Some sh" and so: "st \<noteq> Margin" by auto
  have "shape_without_ellipse sh" using assms(1) sh by (simp add: float_without_ellipse_def)
  then have "shape_LineLeft sh bs be \<le> shape_LineLeft sh bs bs"
    using assms(2) by (intro shape_LineLeft_mono)
  then show ?thesis using sh so by (simp add: FloatInfo_LineLeft_def max.coboundedI2)
qed

text \<open>The walk in the two band modes, step by step and as a whole.\<close>

lemma band_step_sim:
  assumes mono: "st = Margin \<or> (float_without_ellipse fi \<and> bs \<le> Ew)"
    and ne: "\<not> FloatInfo_IsEmpty fi st"
    and rel: "Lb \<le> Lw" "Rw \<le> Rb" "Eb \<le> Ew"
    and sb: "band_step BandFromPoint st bs fi (Lb, Rb, Eb, hb) = (Lb', Rb', Eb', hb')"
    and sw: "band_step WidthWithinHeight st bs fi (Lw, Rw, Ew, hw) = (Lw', Rw', Ew', hw')"
  shows "Lb' \<le> Lw' \<and> Rw' \<le> Rb' \<and> Eb' \<le> Ew' \<and> Ew' = Ew"
proof -
  have r: "FloatInfo_BStart fi st \<le> bs \<Longrightarrow>
             FloatInfo_LineRight fi st bs bs \<le> FloatInfo_LineRight fi st bs Ew"
  proof (cases "st = Margin")
    case True
    then show ?thesis by (simp add: FloatInfo_LineRight_def)
  next
    case False
    assume "FloatInfo_BStart fi st \<le> bs"
    then show ?thesis using mono False ne by (intro FloatInfo_LineRight_mono) auto
  qed
  have l: "FloatInfo_BStart fi st \<le> bs \<Longrightarrow>
             FloatInfo_LineLeft fi st bs Ew \<le> FloatInfo_LineLeft fi st bs bs"
  proof (cases "st = Margin")
    case True
    then show ?thesis by (simp add: FloatInfo_LineLeft_def)
  next
    case False
    assume "FloatInfo_BStart fi st \<le> bs"
    then show ?thesis using mono False ne by (intro FloatInfo_LineLeft_mono) auto
  qed
  show ?thesis
  proof (cases "bs < FloatInfo_BStart fi st")
    case True
    then have "Lb' = Lb \<and> Rb' = Rb \<and> Eb' \<le> Eb"
      using sb by (auto simp: band_step_def Let_def split: if_splits)
    moreover have "Lw \<le> Lw' \<and> Rw' \<le> Rw \<and> Ew' = Ew"
      using sw by (auto simp: band_step_def Let_def split: if_splits)
    ultimately show ?thesis using rel by auto
  next
    case False
    then have lo: "FloatInfo_BStart fi st \<le> bs" by simp
    note r' = r [OF lo] and l' = l [OF lo]
    show ?thesis
      using sb sw rel False r' l'
      by (auto simp: band_step_def Let_def split: if_splits)
  qed
qed

lemma band_loop_sim:
  assumes mono: "st = Margin \<or> (list_all float_without_ellipse fs \<and> bs \<le> Ew)"
    and rel: "Lb \<le> Lw" "Rw \<le> Rb" "Eb \<le> Ew"
    and lb: "band_loop BandFromPoint st bs fs (Lb, Rb, Eb, hb) = (Lb', Rb', Eb', hb')"
    and lw: "band_loop WidthWithinHeight st bs fs (Lw, Rw, Ew, hw) = (Lw', Rw', Ew', hw')"
  shows "Lb' \<le> Lw' \<and> Rw' \<le> Rb'"
  using assms
proof (induction fs arbitrary: Lb Rb Eb hb Lw Rw hw)
  case Nil
  then show ?case by simp
next
  case (Cons fi fs)
  have mono_fs: "st = Margin \<or> (list_all float_without_ellipse fs \<and> bs \<le> Ew)"
    and mono_fi: "st = Margin \<or> (float_without_ellipse fi \<and> bs \<le> Ew)"
    using Cons.prems(1) by auto
  show ?case
  proof (cases "mLeftBEnd fi \<le> bs \<and> mRightBEnd fi \<le> bs")
    case True
    then show ?thesis using Cons.prems by simp
  next
    case brk: False
    show ?thesis
    proof (cases "FloatInfo_IsEmpty fi st")
      case True
      have "band_loop BandFromPoint st bs fs (Lb, Rb, Eb, hb) = (Lb', Rb', Eb', hb')"
        and "band_loop WidthWithinHeight st bs fs (Lw, Rw, Ew, hw) = (Lw', Rw', Ew', hw')"
        using Cons.prems(5,6) brk True by simp_all
      then show ?thesis using Cons.IH [OF mono_fs Cons.prems(2,3,4)] by blast
    next
      case False
      obtain Lb1 Rb1 Eb1 hb1 where sb:
        "band_step BandFromPoint st bs fi (Lb, Rb, Eb, hb) = (Lb1, Rb1, Eb1, hb1)"
        by (metis prod_cases4)
      obtain Lw1 Rw1 Ew1 hw1 where sw:
        "band_step WidthWithinHeight st bs fi (Lw, Rw, Ew, hw) = (Lw1, Rw1, Ew1, hw1)"
        by (metis prod_cases4)
      have s: "Lb1 \<le> Lw1 \<and> Rw1 \<le> Rb1 \<and> Eb1 \<le> Ew1 \<and> Ew1 = Ew"
        using band_step_sim [OF mono_fi False Cons.prems(2,3,4) sb sw] .
      have "band_loop BandFromPoint st bs fs (Lb1, Rb1, Eb1, hb1) = (Lb', Rb', Eb', hb')"
        and "band_loop WidthWithinHeight st bs fs (Lw1, Rw1, Ew, hw1) = (Lw', Rw', Ew', hw')"
        using Cons.prems(5,6) brk False sb sw s by simp_all
      then show ?thesis using Cons.IH [OF mono_fs, of Lb1 Lw1 Rw1 Rb1 Eb1] s by blast
    qed
  qed
qed

lemma band_init_ordered:
  assumes "band_init org bs aWM aBSize ca cs = (L0, R0, E0, h0)" "0 \<le> aBSize" "bs \<le> nscoord_MAX"
  shows "bs \<le> E0"
  using assms by (auto simp: band_init_def Let_def split: if_splits)


lemma band_narrow_without_ellipse:
  assumes gb: "GetFlowArea m aWM aBCoord aBSize BandFromPoint aShapeType aContentArea aState
                 aContainerSize = Some rb"
    and gw: "GetFlowArea m aWM aBCoord aBSize WidthWithinHeight aShapeType aContentArea aState
                 aContainerSize = Some rw"
    and size: "0 \<le> aBSize"
    and shapes: "aShapeType = ShapeOutside \<longrightarrow>
                   band_blockStart (mBlockStart m) aBCoord \<le> nscoord_MAX \<and>
                   list_all float_without_ellipse (floats_in_scope m aState)"
  shows "IStart (fa_mRect rb) \<le> IStart (fa_mRect rw)
       \<and> IStart (fa_mRect rw) + ISize (fa_mRect rw) \<le> IStart (fa_mRect rb) + ISize (fa_mRect rb)"
proof -
  define fs where "fs = floats_in_scope m aState"
  define bs where "bs = band_blockStart (mBlockStart m) aBCoord"
  have rb: "rb = flow_area_of (mLineLeft m) (mBlockStart m) fs aWM aBCoord aBSize BandFromPoint
                   aShapeType aContentArea aContainerSize"
    using gb by (simp add: GetFlowArea_def fs_def split: if_splits)
  have rw: "rw = flow_area_of (mLineLeft m) (mBlockStart m) fs aWM aBCoord aBSize WidthWithinHeight
                   aShapeType aContentArea aContainerSize"
    using gw by (simp add: GetFlowArea_def fs_def split: if_splits)
  show ?thesis
  proof (cases "below_last_float fs bs")
    case True
    then show ?thesis using rb rw by (simp add: flow_area_of_def bs_def)
  next
    case False
    obtain L0 R0 E0 h0 where i: "band_init (mLineLeft m) bs aWM aBSize aContentArea aContainerSize
                                   = (L0, R0, E0, h0)"
      by (metis prod_cases4)
    obtain Lb Rb Eb hb where wb: "band_loop BandFromPoint aShapeType bs (rev fs) (L0, R0, E0, h0)
                               = (Lb, Rb, Eb, hb)"
      by (metis prod_cases4)
    obtain Lw Rw Ew hw where ww: "band_loop WidthWithinHeight aShapeType bs (rev fs) (L0, R0, E0, h0)
                               = (Lw, Rw, Ew, hw)"
      by (metis prod_cases4)
    have mono: "aShapeType = Margin \<or> (list_all float_without_ellipse (rev fs) \<and> bs \<le> E0)"
    proof (cases aShapeType)
      case Margin
      then show ?thesis by simp
    next
      case ShapeOutside
      then have "bs \<le> nscoord_MAX" and "list_all float_without_ellipse fs"
        using shapes by (simp_all add: bs_def fs_def)
      then show ?thesis using band_init_ordered [OF i size] by simp
    qed
    have sim: "Lb \<le> Lw \<and> Rw \<le> Rb"
      by (rule band_loop_sim [OF mono _ _ _ wb ww]) simp_all
    have resb: "rb = mk_nsFlowAreaRect
                 (if IsBidiLTR aWM then Lb - mLineLeft m
                  else mLineLeft m - Rb + LogicalSize_ISize aWM aContainerSize)
                 (bs - mBlockStart m) (Rb - Lb)
                 (if Eb = nscoord_MAX then nscoord_MAX else Eb - bs) hb"
      using rb False i wb by (simp add: flow_area_of_def band_walk_def bs_def Let_def)
    have resw: "rw = mk_nsFlowAreaRect
                 (if IsBidiLTR aWM then Lw - mLineLeft m
                  else mLineLeft m - Rw + LogicalSize_ISize aWM aContainerSize)
                 (bs - mBlockStart m) (Rw - Lw)
                 (if Ew = nscoord_MAX then nscoord_MAX else Ew - bs) hw"
      using rw False i ww by (simp add: flow_area_of_def band_walk_def bs_def Let_def)
    show ?thesis using sim resb resw by (auto simp: mk_nsFlowAreaRect_def)
  qed
qed

subsection \<open>Rounding to double\<close>

lemma round_half_even_ge: "\<lfloor>y\<rfloor> \<le> round_half_even y"
  by (simp add: round_half_even_def Let_def)

lemma round_half_even_le: "round_half_even y \<le> \<lfloor>y\<rfloor> + 1"
  by (simp add: round_half_even_def Let_def)

lemma binade_unit:
  assumes "1 \<le> x" "x < 2"
  shows "binade x = 0"
proof -
  have "0 \<le> log 2 x" using assms by simp
  moreover have "log 2 x < 1" using assms by simp
  ultimately have "\<lfloor>log 2 x\<rfloor> = 0" by (simp add: floor_eq_iff)
  then show ?thesis using assms by (simp add: binade_def)
qed

lemma powr_minus_52: "(2::real) powr - 52 = 1 / 4503599627370496"
  by (simp add: powr_minus inverse_eq_divide)

lemma round_double_zero: "round_double 0 = 0"
  by (simp add: round_double_def)

lemma round_double_unit:
  assumes "1 \<le> x" "x < 2"
  shows "round_double x = of_int (round_half_even (x * 4503599627370496)) / 4503599627370496"
  using assms by (simp add: round_double_def binade_unit powr_minus_52)

lemma round_double_one: "round_double 1 = 1"
  by (simp add: round_double_unit round_half_even_def)

lemma round_double_gt_one:
  assumes "1 + 1 / 4503599627370496 \<le> x" "x < 2"
  shows "1 < round_double x"
proof -
  have x1: "1 \<le> x" using assms(1) by simp
  have "4503599627370497 \<le> x * 4503599627370496"
    using assms(1) by simp
  then have f: "4503599627370497 \<le> \<lfloor>x * 4503599627370496\<rfloor>"
    by (simp add: le_floor_iff)
  have "4503599627370497 \<le> round_half_even (x * 4503599627370496)"
    by (rule order_trans [OF f round_half_even_ge])
  then have "(4503599627370497 :: real) \<le> of_int (round_half_even (x * 4503599627370496))"
    by linarith
  then show ?thesis using x1 assms(2) by (simp add: round_double_unit)
qed

lemma round_double_neg:
  assumes "x < 0"
  shows "round_double x < 0"
proof -
  define k where "k = binade x"
  define y where "y = x * 2 powr of_int (52 - k)"
  have ax: "0 < \<bar>x\<bar>" using assms by simp
  have "of_int k \<le> log 2 \<bar>x\<bar>" by (simp add: k_def binade_def)
  then have "2 powr of_int k \<le> \<bar>x\<bar>" using ax by (simp add: powr_le_iff)
  then have m: "2 powr of_int k * 2 powr of_int (52 - k) \<le> \<bar>x\<bar> * 2 powr of_int (52 - k)"
    by (intro mult_right_mono) simp_all
  have "2 powr of_int k * 2 powr of_int (52 - k) = (2::real) powr (of_int k + of_int (52 - k))"
    by (simp only: powr_add)
  also have "\<dots> = 2 powr 52" by simp
  also have "\<dots> = 4503599627370496" by simp
  finally have e: "2 powr of_int k * 2 powr of_int (52 - k) = (4503599627370496::real)" .
  have "4503599627370496 \<le> \<bar>x\<bar> * 2 powr of_int (52 - k)"
    using m unfolding e .
  then have yb: "y \<le> - 4503599627370496" using assms by (simp add: y_def)
  have "round_half_even y \<le> \<lfloor>y\<rfloor> + 1" by (rule round_half_even_le)
  then have "(of_int (round_half_even y) :: real) \<le> of_int (\<lfloor>y\<rfloor> + 1)"
    by (simp only: of_int_le_iff)
  also have "\<dots> \<le> y + 1" by simp
  also have "\<dots> < 0" using yb by simp
  finally have r: "(of_int (round_half_even y) :: real) < 0" .
  have p: "(0::real) < 2 powr of_int (k - 52)" by simp
  have "of_int (round_half_even y) * 2 powr of_int (k - 52) < (0::real)"
    using r p by (rule mult_neg_pos)
  then show ?thesis using assms by (simp add: round_double_def k_def y_def)
qed

lemma binade_eq:
  assumes "2 powr of_int k \<le> \<bar>x\<bar>" "\<bar>x\<bar> < 2 powr of_int (k + 1)"
  shows "binade x = k"
proof -
  have pos: "0 < \<bar>x\<bar>" using assms(1) by (rule less_le_trans [rotated]) simp
  have "of_int k \<le> log 2 \<bar>x\<bar>" using assms(1) pos by (simp add: powr_le_iff)
  moreover have "log 2 \<bar>x\<bar> < of_int (k + 1)" using assms(2) pos by (simp add: less_powr_iff)
  ultimately have "\<lfloor>log 2 \<bar>x\<bar>\<rfloor> = k" by (intro floor_unique) simp_all
  then show ?thesis by (simp add: binade_def)
qed

lemma round_double_at:
  assumes c: "c = 2 powr of_int (52 - k)"
    and lo: "2 powr of_int k \<le> \<bar>x\<bar>" and hi: "\<bar>x\<bar> < 2 powr of_int (k + 1)"
  shows "round_double x = of_int (round_half_even (x * c)) / c"
proof -
  have b: "binade x = k" using lo hi by (rule binade_eq)
  have "0 < \<bar>x\<bar>" using lo by (rule less_le_trans [rotated]) simp
  then have nz: "x \<noteq> 0" by simp
  have "2 powr of_int (k - 52) = 2 powr (- of_int (52 - k))" by simp
  also have "\<dots> = inverse c" unfolding c by (rule powr_minus)
  finally have i: "2 powr of_int (k - 52) = inverse c" .
  have "round_double x = of_int (round_half_even (x * 2 powr of_int (52 - binade x)))
                           * 2 powr of_int (binade x - 52)"
    using nz by (simp only: round_double_def if_False)
  also have "\<dots> = of_int (round_half_even (x * c)) * inverse c"
    by (simp only: b i c [symmetric])
  finally show ?thesis by (simp only: divide_inverse)
qed

lemma round_half_even_unique:
  assumes "of_int r - 1 / 2 < y" "y < of_int r + 1 / 2"
  shows "round_half_even y = r"
proof -
  have "\<lfloor>y\<rfloor> = r \<or> \<lfloor>y\<rfloor> = r - 1" using assms by linarith
  then show ?thesis
    using assms by (auto simp: round_half_even_def Let_def)
qed

text \<open>
  Rounding is visible in the intercept: on the circle of radius 17 the abscissa at the
  ordinate 15 is 8, and the double computation returns 7, because the product
  \<^verbatim>\<open>aRadiusX * std::sqrt(...)\<close> rounds to the double just below 8.
\<close>

lemma round_quotient_225_289: "round_double (225 / 289) = 7012525371338143 / 9007199254740992"
proof -
  have "round_double (225 / 289)
          = of_int (round_half_even (225 / 289 * 9007199254740992)) / 9007199254740992"
    by (rule round_double_at [where k = "- 1"]) (simp_all add: powr_minus)
  moreover have "round_half_even (225 / 289 * 9007199254740992) = 7012525371338143"
    by (rule round_half_even_unique) simp_all
  ultimately show ?thesis by simp
qed

lemma round_difference_225_289: "round_double (1994673883402849 / 9007199254740992)
            = 1994673883402849 / 9007199254740992"
proof -
  have "round_double (1994673883402849 / 9007199254740992)
          = of_int (round_half_even (1994673883402849 / 9007199254740992 * 36028797018963968))
              / 36028797018963968"
    by (rule round_double_at [where k = "- 3"]) (simp_all add: powr_minus)
  moreover have "round_half_even (1994673883402849 / 9007199254740992 * 36028797018963968)
                   = 7978695533611396"
    by (rule round_half_even_unique) simp_all
  ultimately show ?thesis by simp
qed

lemma round_root_225_289: "round_double (sqrt (1994673883402849 / 9007199254740992))
            = 8477364004462109 / 18014398509481984"
proof -
  define t :: real where "t = 1994673883402849 / 9007199254740992"
  have lo: "(8477364004462109 - 1 / 2) / 18014398509481984 < sqrt t"
    by (rule real_less_rsqrt) (simp add: t_def power2_eq_square)
  have hi: "sqrt t < (8477364004462109 + 1 / 2) / 18014398509481984"
    by (rule real_less_lsqrt) (simp_all add: t_def power2_eq_square)
  have "round_double (sqrt t)
          = of_int (round_half_even (sqrt t * 18014398509481984)) / 18014398509481984"
    using lo hi by (intro round_double_at [where k = "- 2"]) (simp_all add: powr_minus)
  moreover have "round_half_even (sqrt t * 18014398509481984) = 8477364004462109"
    using lo hi by (intro round_half_even_unique) (simp_all add: field_simps)
  ultimately show ?thesis by (simp add: t_def)
qed

lemma round_product_225_289: "round_double (144115188075855853 / 18014398509481984)
            = 9007199254740991 / 1125899906842624"
proof -
  have "round_double (144115188075855853 / 18014398509481984)
          = of_int (round_half_even (144115188075855853 / 18014398509481984 * 1125899906842624))
              / 1125899906842624"
    by (rule round_double_at [where k = 2]) simp_all
  moreover have "round_half_even (144115188075855853 / 18014398509481984 * 1125899906842624)
                   = 9007199254740991"
    by (rule round_half_even_unique) simp_all
  ultimately show ?thesis by simp
qed

lemma intercept_8_15_17: "ellipse_XInterceptAtY 15 17 17 = 7"
proof -
  have d: "double_div (wrap32 (15 * 15)) (wrap32 (17 * 17))
             = Finite (7012525371338143 / 9007199254740992)"
    by (simp add: wrap32_def double_div_def round_quotient_225_289)
  have m: "double_one_minus (Finite (7012525371338143 / 9007199254740992))
             = Finite (1994673883402849 / 9007199254740992)"
    by (simp add: round_difference_225_289)
  have r: "double_sqrt (Finite (1994673883402849 / 9007199254740992))
             = Finite (8477364004462109 / 18014398509481984)"
    by (simp add: round_root_225_289)
  have x: "double_times 17 (Finite (8477364004462109 / 18014398509481984))
             = Finite (9007199254740991 / 1125899906842624)"
    by (simp add: round_product_225_289)
  have f: "\<lfloor>9007199254740991 / (1125899906842624::real)\<rfloor> = 7"
    by (rule floor_unique) simp_all
  have c: "double_to_nscoord (Finite (9007199254740991 / 1125899906842624)) = 7"
    by (simp add: trunc_to_nscoord_def f)
  show ?thesis
    unfolding ellipse_XInterceptAtY_def d m r x c ..
qed

text \<open>
  The intercept of a quarter circle of radius 60000 at its two ends of interest. At
  the ordinate 60000 both 32-bit products are \<open>- 694967296\<close>, the quotient is 1 and
  the intercept 0, as on the circle. At the ordinate 59400 the products are
  \<open>- 766607296\<close> and \<open>- 694967296\<close>, the quotient exceeds 1, the root is taken of a
  negative number and the NaN converts to the least integer.
\<close>

lemma intercept_at_60000: "ellipse_XInterceptAtY 60000 60000 60000 = 0"
  by (simp add: ellipse_XInterceptAtY_def wrap32_def double_div_def round_double_one
        round_double_zero trunc_to_nscoord_def)

lemma intercept_at_59400: "ellipse_XInterceptAtY 59400 60000 60000 = - 2147483648"
proof -
  have "1 < round_double (766607296 / 694967296)"
    by (rule round_double_gt_one) simp_all
  then have "round_double (1 - round_double (766607296 / 694967296)) < 0"
    by (intro round_double_neg) simp
  then show ?thesis
    by (simp add: ellipse_XInterceptAtY_def wrap32_def double_div_def)
qed

text \<open>
  Claim C2 fails for a float with a large circle. For the float of \<open>ex_circle_float\<close>,
  the \<open>BandFromPoint\<close> query at block coordinate 0 returns the region from 60000 on,
  where the circle's top touches the line, and the \<open>WidthWithinHeight\<close> query over
  \<open>[0, 600]\<close>, at the same state and content area, returns the whole content area
  without any float: the band is wider than its starting point, on the float's side.
\<close>

theorem WidthWithinHeight_wider_for_large_circle:
  "wrap32 (60000 * 60000) = - 694967296
   \<and> wrap32 (59400 * 59400) = - 766607296
   \<and> Ellipse_LineRight \<lparr>pt_x = 60000, pt_y = 60000\<rparr> \<lparr>sz_width = 60000, sz_height = 60000\<rparr> 0 0
        = 60000
   \<and> Ellipse_LineRight \<lparr>pt_x = 60000, pt_y = 60000\<rparr> \<lparr>sz_width = 60000, sz_height = 60000\<rparr> 0 600
        = - 2147423648
   \<and> GetFlowArea ex_circle_float ex_wm 0 600 BandFromPoint ShapeOutside (ex_rect 0 0 200000 0)
        None ex_wide_container = Some (mk_nsFlowAreaRect 60000 0 140000 600 True)
   \<and> GetFlowArea ex_circle_float ex_wm 0 600 WidthWithinHeight ShapeOutside
        (ex_rect 0 0 200000 0) None ex_wide_container
        = Some (mk_nsFlowAreaRect 0 0 200000 600 False)
   \<and> \<not> IStart (fa_mRect (mk_nsFlowAreaRect 60000 0 140000 600 True))
          \<le> IStart (fa_mRect (mk_nsFlowAreaRect 0 0 200000 600 False))"
  by (simp add: ex_circle_float_def ex_wide_container_def flow_eval add_eval
        point_MoveBy_def size_IsEmpty_def Ellipse_LineRight_def Ellipse_LineLeft_def
        Ellipse_BStart_def Ellipse_BEnd_def ComputeEllipseLineInterceptDiff_def
        intercept_at_60000 intercept_at_59400 wrap32_def)

end
